theory Spec2Isabelle
  imports Complex_Main "HOL-Library.Word"
begin

section \<open>Python values, exceptions and byte strings\<close>

text \<open>
  The embedding follows \<^verbatim>\<open>mathics/builtin/randomnumbers.py\<close>. Python is
  dynamically typed and raises exceptions; a raise is the \<open>Inl\<close> branch of a sum
  whose left type is \<open>pyerr\<close>.
\<close>

datatype pyerr =
  ValueError | TypeError | IndexError | AttributeError | BinasciiError | UnpicklingError

type_synonym byte = "8 word"

subsection \<open>Hexadecimal text: \<^verbatim>\<open>binascii.b2a_hex\<close>, \<^verbatim>\<open>int(s, 16)\<close>, \<^verbatim>\<open>hex\<close>, \<^verbatim>\<open>binascii.a2b_hex\<close>\<close>

text \<open>The lower-case hexadecimal digit of a value below 16.\<close>

definition hexchar :: "nat \<Rightarrow> char" where
  "hexchar n = (if n < 10 then char_of (48 + n) else char_of (87 + n))"

text \<open>The value of a hexadecimal digit, in either case; \<open>None\<close> for any other character.\<close>

definition hexval :: "char \<Rightarrow> nat option" where
  "hexval c =
     (let k = (of_char c :: nat) in
      if 48 \<le> k \<and> k \<le> 57 then Some (k - 48)
      else if 97 \<le> k \<and> k \<le> 102 then Some (k - 87)
      else if 65 \<le> k \<and> k \<le> 70 then Some (k - 55)
      else None)"

text \<open>\<^verbatim>\<open>binascii.b2a_hex\<close>: two lower-case digits per byte, high nibble first.\<close>

fun b2a_hex :: "byte list \<Rightarrow> string" where
  "b2a_hex [] = []"
| "b2a_hex (b # bs) = hexchar (unat b div 16) # hexchar (unat b mod 16) # b2a_hex bs"

text \<open>
  \<^verbatim>\<open>int(s, 16)\<close> on a string of hexadecimal digits: the empty string and a character
  that is no digit raise \<^verbatim>\<open>ValueError\<close>. (Python also accepts a sign, a
  \<^verbatim>\<open>0x\<close> prefix and blanks; \<^verbatim>\<open>b2a_hex\<close> produces none of them.)
\<close>

definition py_int16 :: "string \<Rightarrow> pyerr + int" where
  "py_int16 s =
     (if s = [] then Inl ValueError
      else case those (map hexval s) of
             None \<Rightarrow> Inl ValueError
           | Some ds \<Rightarrow> Inr (int (foldl (\<lambda>a d. 16 * a + d) 0 ds)))"

text \<open>The digits of \<^verbatim>\<open>hex(n)\<close> for \<open>n \<ge> 0\<close>, without the prefix and without leading zeros.\<close>

function hex_digits :: "nat \<Rightarrow> string" where
  "hex_digits n = (if n < 16 then [hexchar n] else hex_digits (n div 16) @ [hexchar (n mod 16)])"
  by pat_completeness auto
termination
  by (relation "measure id") auto

declare hex_digits.simps [simp del]

text \<open>\<^verbatim>\<open>hex(i)\<close> of a Python 3 integer: \<^verbatim>\<open>0x...\<close> or \<^verbatim>\<open>-0x...\<close>.\<close>

definition py_hex :: "int \<Rightarrow> string" where
  "py_hex i = (if i < 0 then ''-0x'' @ hex_digits (nat (- i)) else ''0x'' @ hex_digits (nat i))"

text \<open>\<^verbatim>\<open>s.rstrip('L')\<close>: drops every trailing \<^verbatim>\<open>L\<close>.\<close>

definition rstrip_L :: "string \<Rightarrow> string" where
  "rstrip_L s = rev (dropWhile (\<lambda>c. c = CHR ''L'') (rev s))"

text \<open>
  \<^verbatim>\<open>binascii.a2b_hex\<close>: an odd number of characters or a character that is no
  hexadecimal digit raises \<^verbatim>\<open>binascii.Error\<close>.
\<close>

fun a2b_hex :: "string \<Rightarrow> pyerr + byte list" where
  "a2b_hex [] = Inr []"
| "a2b_hex [c] = Inl BinasciiError"
| "a2b_hex (h # l # rest) =
     (case (hexval h, hexval l) of
        (Some x, Some y) \<Rightarrow>
          (case a2b_hex rest of
             Inl e \<Rightarrow> Inl e
           | Inr bs \<Rightarrow> Inr (of_nat (16 * x + y) # bs))
      | _ \<Rightarrow> Inl BinasciiError)"


text \<open>The two hexadecimal digit values of every byte, high nibble first.\<close>

fun nibbles :: "byte list \<Rightarrow> nat list" where
  "nibbles [] = []"
| "nibbles (b # bs) = (unat b div 16) # (unat b mod 16) # nibbles bs"

section \<open>Expressions of the evaluator and their Python values\<close>

text \<open>
  Modelled from the spec: the symbolic expression types (\<^verbatim>\<open>Integer\<close>,
  \<^verbatim>\<open>Real\<close>, \<^verbatim>\<open>Complex\<close>, \<^verbatim>\<open>String\<close>, \<^verbatim>\<open>Symbol\<close>,
  \<^verbatim>\<open>Expression\<close>) are imported from \<^verbatim>\<open>mathics.core.expression\<close>, which is
  not among the source files; the spec lists them as an external collaborator. An
  \<open>Expression\<close> carries the name of its head and its leaves; machine floats are
  idealised as reals. \<open>Real_expr\<close> and \<open>Complex_expr\<close> stand for the source's
  \<^verbatim>\<open>Real\<close> and \<^verbatim>\<open>Complex\<close>, whose names HOL already uses.
\<close>

datatype expr =
    Integer int
  | Real_expr real
  | Complex_expr real real
  | String string
  | Symbol string
  | Expression string "expr list"

text \<open>The values \<^verbatim>\<open>to_python\<close> can return.\<close>

datatype pyval =
    PyNone
  | PyBool bool
  | PyInt int
  | PyFloat real
  | PyComplex real real
  | PyStr string
  | PyList "pyval list"
  | PyTuple "pyval list"
  | PyExpr expr

text \<open>
  Modelled from the spec: \<^verbatim>\<open>get_head_name\<close>, \<^verbatim>\<open>is_numeric\<close> and
  \<^verbatim>\<open>to_python\<close> belong to the missing \<^verbatim>\<open>mathics.core.expression\<close> (the
  spec's "conversion to/from host-native numbers"). Number atoms are numeric, every other
  expression is not; a \<^verbatim>\<open>List\<close> converts to a Python list of its converted leaves,
  the symbols \<^verbatim>\<open>True\<close>, \<^verbatim>\<open>False\<close> and \<^verbatim>\<open>Null\<close> to \<^verbatim>\<open>True\<close>,
  \<^verbatim>\<open>False\<close> and \<^verbatim>\<open>None\<close>, any other symbol to its name, and any other
  compound expression to itself.
\<close>

fun get_head_name :: "expr \<Rightarrow> string" where
  "get_head_name (Integer _) = ''System`Integer''"
| "get_head_name (Real_expr _) = ''System`Real''"
| "get_head_name (Complex_expr _ _) = ''System`Complex''"
| "get_head_name (String _) = ''System`String''"
| "get_head_name (Symbol _) = ''System`Symbol''"
| "get_head_name (Expression h _) = h"

fun is_numeric :: "expr \<Rightarrow> bool" where
  "is_numeric (Integer _) = True"
| "is_numeric (Real_expr _) = True"
| "is_numeric (Complex_expr _ _) = True"
| "is_numeric _ = False"

fun to_python :: "expr \<Rightarrow> pyval" where
  "to_python (Integer n) = PyInt n"
| "to_python (Real_expr x) = PyFloat x"
| "to_python (Complex_expr a b) = PyComplex a b"
| "to_python (String s) = PyStr s"
| "to_python (Symbol s) =
     (if s = ''System`True'' then PyBool True
      else if s = ''System`False'' then PyBool False
      else if s = ''System`Null'' then PyNone
      else PyStr s)"
| "to_python (Expression h ls) =
     (if h = ''System`List'' then PyList (map to_python ls) else PyExpr (Expression h ls))"

text \<open>The attribute \<^verbatim>\<open>leaves\<close>, which only a compound expression has.\<close>

fun leaves :: "expr \<Rightarrow> pyerr + expr list" where
  "leaves (Expression _ ls) = Inr ls"
| "leaves _ = Inl AttributeError"

text \<open>\<^verbatim>\<open>xs[i]\<close> for \<open>i \<ge> 0\<close>: out of range raises \<^verbatim>\<open>IndexError\<close>.\<close>

definition nth_py :: "'a list \<Rightarrow> nat \<Rightarrow> pyerr + 'a" where
  "nth_py xs i = (if i < length xs then Inr (xs ! i) else Inl IndexError)"

text \<open>A list comprehension whose items may raise: the first exception ends it.\<close>

fun sequence_err :: "(pyerr + 'a) list \<Rightarrow> pyerr + 'a list" where
  "sequence_err [] = Inr []"
| "sequence_err (Inl e # rs) = Inl e"
| "sequence_err (Inr x # rs) = (case sequence_err rs of Inl e \<Rightarrow> Inl e | Inr xs \<Rightarrow> Inr (x # xs))"

text \<open>
  \<^verbatim>\<open>for i in e\<close> over an expression \<open>e\<close> of the evaluator. The expression classes
  define no iteration (neither \<^verbatim>\<open>__iter__\<close> nor \<^verbatim>\<open>__getitem__\<close>; the leaves are
  reached through the attribute \<^verbatim>\<open>leaves\<close>), so Python raises \<^verbatim>\<open>TypeError\<close>
  ("object is not iterable") for every expression, atom or compound.
\<close>

definition iter_expr :: "expr \<Rightarrow> pyerr + expr list" where
  "iter_expr e = Inl TypeError"

text \<open>Python's iteration over a value: lists and tuples yield their items.\<close>

fun iter_py :: "pyval \<Rightarrow> pyerr + pyval list" where
  "iter_py (PyList xs) = Inr xs"
| "iter_py (PyTuple xs) = Inr xs"
| "iter_py (PyExpr e) = (case iter_expr e of Inl err \<Rightarrow> Inl err | Inr ls \<Rightarrow> Inr (map PyExpr ls))"
| "iter_py _ = Inl TypeError"

text \<open>\<^verbatim>\<open>isinstance(i, int) and i >= 0\<close>; \<^verbatim>\<open>bool\<close> is a subclass of \<^verbatim>\<open>int\<close>.\<close>

fun is_nonneg_int :: "pyval \<Rightarrow> bool" where
  "is_nonneg_int (PyInt n) = (0 \<le> n)"
| "is_nonneg_int (PyBool _) = True"
| "is_nonneg_int _ = False"

text \<open>\<^verbatim>\<open>isinstance(w, (int, float)) and w >= 0\<close>.\<close>

fun is_nonneg_number :: "pyval \<Rightarrow> bool" where
  "is_nonneg_number (PyInt n) = (0 \<le> n)"
| "is_nonneg_number (PyBool _) = True"
| "is_nonneg_number (PyFloat x) = (0 \<le> x)"
| "is_nonneg_number _ = False"

section \<open>The generator, the libraries and the evaluation state\<close>

text \<open>
  Modelled from the spec: the underlying uniform generator (numpy's Mersenne Twister),
  \<^verbatim>\<open>pickle\<close> and \<^verbatim>\<open>hashlib\<close> are libraries outside the repository. The
  spec treats the generator as a black box with seed, draw and state get/set operations,
  so its state type \<open>'g\<close> and its single-draw steps are parameters: \<open>pickle_dumps\<close>
  and \<open>pickle_loads\<close> serialise the state (\<open>None\<close>: \<^verbatim>\<open>loads\<close> or
  \<^verbatim>\<open>set_state\<close> raises), \<open>mt_init n\<close> is the state after seeding with a valid
  seed \<open>n\<close>, \<open>next_int lo hi\<close>, \<open>next_real lo hi\<close>, \<open>next_index n\<close> and
  \<open>next_weighted p\<close> draw one value and advance the state, \<open>md5_int\<close> is the
  integer value of \<^verbatim>\<open>hashlib.md5(s).hexdigest()\<close>.
\<close>

record 'g libs =
  pickle_dumps :: "'g \<Rightarrow> byte list"
  pickle_loads :: "byte list \<Rightarrow> 'g option"
  mt_init :: "nat \<Rightarrow> 'g"
  next_int :: "int \<Rightarrow> int \<Rightarrow> 'g \<Rightarrow> int \<times> 'g"
  next_real :: "real \<Rightarrow> real \<Rightarrow> 'g \<Rightarrow> real \<times> 'g"
  next_index :: "nat \<Rightarrow> 'g \<Rightarrow> nat \<times> 'g"
  next_weighted :: "real list \<Rightarrow> 'g \<Rightarrow> nat \<times> 'g"
  md5_int :: "string \<Rightarrow> nat"

text \<open>A message issued through \<^verbatim>\<open>evaluation.message(symbol, tag, *args)\<close>.\<close>

type_synonym message = "string \<times> string \<times> expr list"

text \<open>
  Modelled from the spec: the evaluation state. \<open>config\<close> is the evaluator's global
  configuration store (\<^verbatim>\<open>definitions.get_config_value\<close> and
  \<^verbatim>\<open>set_config_value\<close>, not among the source files; the spec's "single named slot"),
  \<open>gen\<close> the state of numpy's global generator, \<open>entropy\<close> and \<open>ticks\<close> the
  ambient entropy \<^verbatim>\<open>numpy.random.seed()\<close> reads, \<open>out\<close> the messages issued so
  far.
\<close>

record 'g world =
  config :: "string \<Rightarrow> int option"
  gen :: 'g
  entropy :: "nat \<Rightarrow> 'g"
  ticks :: nat
  out :: "message list"

definition get_config_value :: "'g world \<Rightarrow> string \<Rightarrow> int option" where
  "get_config_value w name = config w name"

definition set_config_value :: "string \<Rightarrow> int \<Rightarrow> 'g world \<Rightarrow> 'g world" where
  "set_config_value name v w = w\<lparr>config := (config w)(name \<mapsto> v)\<rparr>"

text \<open>\<^verbatim>\<open>evaluation.message\<close> records the message and returns \<^verbatim>\<open>None\<close>.\<close>

definition evaluation_message :: "string \<Rightarrow> string \<Rightarrow> expr list \<Rightarrow> 'g world \<Rightarrow> 'g world" where
  "evaluation_message symbol tag args w = w\<lparr>out := out w @ [(symbol, tag, args)]\<rparr>"

text \<open>
  Modelled from the spec: \<^verbatim>\<open>numpy.random.seed\<close>. Without an argument the state is
  taken from ambient entropy. With an integer the generator's valid seed domain applies:
  numpy requires a seed convertible to a 32-bit unsigned integer and raises
  \<^verbatim>\<open>ValueError\<close> for any other integer, leaving the state as it was.
\<close>

definition numpy_random_seed :: "'g libs \<Rightarrow> int option \<Rightarrow> 'g world \<Rightarrow> pyerr + 'g world" where
  "numpy_random_seed L x w =
     (case x of
        None \<Rightarrow> Inr (w\<lparr>gen := entropy w (ticks w), ticks := Suc (ticks w)\<rparr>)
      | Some i \<Rightarrow>
          if i < 0 \<or> 2 ^ 32 \<le> i then Inl ValueError
          else Inr (w\<lparr>gen := mt_init L (nat i)\<rparr>))"

section \<open>The state codec\<close>

definition get_random_state :: "'g libs \<Rightarrow> 'g world \<Rightarrow> pyerr + int" where
  "get_random_state L w =
     (let state = gen w;
          state = pickle_dumps L state;
          state = b2a_hex state
      in py_int16 state)"

definition set_random_state :: "'g libs \<Rightarrow> int option \<Rightarrow> 'g world \<Rightarrow> pyerr + 'g world" where
  "set_random_state L state w =
     (case state of
        None \<Rightarrow> numpy_random_seed L None w
      | Some i \<Rightarrow>
          (let state = drop 2 (py_hex i);
               state = rstrip_L state
           in case a2b_hex state of
                Inl e \<Rightarrow> Inl e
              | Inr bs \<Rightarrow>
                  (case pickle_loads L bs of
                     None \<Rightarrow> Inl UnpicklingError
                   | Some g \<Rightarrow> Inr (w\<lparr>gen := g\<rparr>))))"

section \<open>The scoped state session \<^verbatim>\<open>RandomEnv\<close>\<close>

definition RandomEnv_enter :: "'g libs \<Rightarrow> 'g world \<Rightarrow> pyerr + 'g world" where
  "RandomEnv_enter L w =
     (let state = get_config_value w ''$RandomState'' in set_random_state L state w)"

definition RandomEnv_exit :: "'g libs \<Rightarrow> 'g world \<Rightarrow> pyerr + 'g world" where
  "RandomEnv_exit L w =
     (case get_random_state L w of
        Inl e \<Rightarrow> Inl e
      | Inr state \<Rightarrow> Inr (set_config_value ''$RandomState'' state w))"

text \<open>
  \<^verbatim>\<open>with RandomEnv(evaluation) as rand: body\<close>. Python runs \<^verbatim>\<open>__enter__\<close>; if it
  raises, neither the body nor \<^verbatim>\<open>__exit__\<close> runs. Otherwise the body runs and
  \<^verbatim>\<open>__exit__\<close> is called whether the body returned or raised; \<^verbatim>\<open>__exit__\<close>
  returns \<^verbatim>\<open>None\<close>, so an exception of the body propagates after it. An exception
  raised by \<^verbatim>\<open>__exit__\<close> itself replaces the body's outcome.
\<close>

definition with_RandomEnv ::
  "'g libs \<Rightarrow> ('g world \<Rightarrow> (pyerr + 'a) \<times> 'g world) \<Rightarrow> 'g world \<Rightarrow> (pyerr + 'a) \<times> 'g world" where
  "with_RandomEnv L body w =
     (case RandomEnv_enter L w of
        Inl e \<Rightarrow> (Inl e, w)
      | Inr w1 \<Rightarrow>
          (case body w1 of
             (r, w2) \<Rightarrow>
               (case RandomEnv_exit L w2 of
                  Inl e \<Rightarrow> (Inl e, w2)
                | Inr w3 \<Rightarrow> (r, w3))))"

definition RandomEnv_seed :: "'g libs \<Rightarrow> int option \<Rightarrow> 'g world \<Rightarrow> pyerr + 'g world" where
  "RandomEnv_seed L x w = numpy_random_seed L x w"


section \<open>Arrays and the draws of the generator adapter\<close>

text \<open>
  Modelled from the spec: a numpy array, as its shape and its items in row-major order.
  A scalar is the array of shape \<open>[]\<close>. \<open>nd_sub a k\<close> is \<^verbatim>\<open>a[k]\<close>, and
  iterating over an array of at least one axis yields \<^verbatim>\<open>a[0]\<close>, \<^verbatim>\<open>a[1]\<close>, ...
\<close>

record 'a ndarray =
  shape :: "nat list"
  data :: "'a list"

definition nd_sub :: "'a ndarray \<Rightarrow> nat \<Rightarrow> 'a ndarray" where
  "nd_sub a k =
     (let m = prod_list (tl (shape a))
      in \<lparr>shape = tl (shape a), data = take m (drop (k * m) (data a))\<rparr>)"

text \<open>
  \<^verbatim>\<open>numpy.stack([a, b], axis=-1)\<close>: both arrays have one shape, and the result pairs
  their items along a new last axis of length 2.
\<close>

definition numpy_stack :: "'a ndarray \<Rightarrow> 'a ndarray \<Rightarrow> pyerr + 'a ndarray" where
  "numpy_stack a b =
     (if shape a \<noteq> shape b then Inl ValueError
      else Inr \<lparr>shape = shape a @ [2], data = concat (map2 (\<lambda>x y. [x, y]) (data a) (data b))\<rparr>)"

text \<open>The dimensions numpy accepts as a \<^verbatim>\<open>size\<close>: non-negative integers.\<close>

fun np_dim :: "pyval \<Rightarrow> pyerr + nat" where
  "np_dim (PyInt n) = (if n < 0 then Inl ValueError else Inr (nat n))"
| "np_dim (PyBool b) = Inr (if b then 1 else 0)"
| "np_dim _ = Inl TypeError"

fun np_size :: "pyval \<Rightarrow> pyerr + nat list" where
  "np_size (PyList xs) = sequence_err (map np_dim xs)"
| "np_size (PyTuple xs) = sequence_err (map np_dim xs)"
| "np_size (PyInt n) = sequence_err [np_dim (PyInt n)]"
| "np_size _ = Inl TypeError"

text \<open>\<open>n\<close> successive draws of one step function.\<close>

fun draw_many :: "('g \<Rightarrow> 'a \<times> 'g) \<Rightarrow> nat \<Rightarrow> 'g \<Rightarrow> 'a list \<times> 'g" where
  "draw_many step 0 g = ([], g)"
| "draw_many step (Suc n) g =
     (case step g of
        (x, g1) \<Rightarrow> (case draw_many step n g1 of (xs, g2) \<Rightarrow> (x # xs, g2)))"

text \<open>
  \<open>k\<close> draws without replacement: every draw picks a position of the remaining pool
  and removes it. \<open>step\<close> is given the pool and returns a position in it.
\<close>

fun draw_distinct :: "('a list \<Rightarrow> 'g \<Rightarrow> nat \<times> 'g) \<Rightarrow> 'a list \<Rightarrow> nat \<Rightarrow> 'g \<Rightarrow> 'a list \<times> 'g" where
  "draw_distinct step pool 0 g = ([], g)"
| "draw_distinct step pool (Suc k) g =
     (if pool = [] then ([], g)
      else case step pool g of
        (i, g1) \<Rightarrow>
          (let j = i mod length pool
           in case draw_distinct step (take j pool @ drop (Suc j) pool) k g1 of
                (xs, g2) \<Rightarrow> (pool ! j # xs, g2)))"

text \<open>
  Modelled from the spec: the draws of the Generator Adapter (numpy's
  \<^verbatim>\<open>random_integers\<close>, \<^verbatim>\<open>uniform\<close> and \<^verbatim>\<open>choice\<close>), which are library
  code. Without a size a draw returns a scalar, with a size an array of that shape.
  \<open>draw_uniform_integer\<close> rejects \<open>lo > hi\<close>. \<open>draw_weighted_index\<close> draws indices
  below \<open>n\<close>; without replacement no index is drawn twice and asking for more than
  \<open>n\<close> of them is an error (numpy's \<^verbatim>\<open>ValueError\<close>), as is an empty population or
  a weight vector of another length.
\<close>

definition numpy_random_random_integers ::
  "'g libs \<Rightarrow> int \<Rightarrow> int \<Rightarrow> pyval option \<Rightarrow> 'g \<Rightarrow> pyerr + int ndarray \<times> 'g" where
  "numpy_random_random_integers L lo hi size_arg g =
     (if hi < lo then Inl ValueError
      else case size_arg of
        None \<Rightarrow> (case next_int L lo hi g of (x, g1) \<Rightarrow> Inr (\<lparr>shape = [], data = [x]\<rparr>, g1))
      | Some sz \<Rightarrow>
          (case np_size sz of
             Inl e \<Rightarrow> Inl e
           | Inr sh \<Rightarrow>
               (case draw_many (next_int L lo hi) (prod_list sh) g of
                  (xs, g1) \<Rightarrow> Inr (\<lparr>shape = sh, data = xs\<rparr>, g1))))"

definition numpy_random_uniform ::
  "'g libs \<Rightarrow> real \<Rightarrow> real \<Rightarrow> pyval option \<Rightarrow> 'g \<Rightarrow> pyerr + real ndarray \<times> 'g" where
  "numpy_random_uniform L lo hi size_arg g =
     (case size_arg of
        None \<Rightarrow> (case next_real L lo hi g of (x, g1) \<Rightarrow> Inr (\<lparr>shape = [], data = [x]\<rparr>, g1))
      | Some sz \<Rightarrow>
          (case np_size sz of
             Inl e \<Rightarrow> Inl e
           | Inr sh \<Rightarrow>
               (case draw_many (next_real L lo hi) (prod_list sh) g of
                  (xs, g1) \<Rightarrow> Inr (\<lparr>shape = sh, data = xs\<rparr>, g1))))"

definition renormalised :: "real list \<Rightarrow> real list" where
  "renormalised ws = map (\<lambda>x. x / sum_list ws) ws"

text \<open>
  One index below \<open>n\<close>, uniform or by the weights \<open>ws\<close>: the value of the
  generator's step is reduced into the range, so that every instance of the parameters
  draws indices in \<open>[0, n)\<close> as the spec requires.
\<close>

definition index_below :: "'g libs \<Rightarrow> nat \<Rightarrow> real list option \<Rightarrow> 'g \<Rightarrow> nat \<times> 'g" where
  "index_below L n p g =
     (case (case p of None \<Rightarrow> next_index L n g | Some ws \<Rightarrow> next_weighted L ws g) of
        (i, g1) \<Rightarrow> (i mod n, g1))"

definition numpy_random_choice ::
  "'g libs \<Rightarrow> nat \<Rightarrow> pyval \<Rightarrow> bool \<Rightarrow> real list option \<Rightarrow> 'g \<Rightarrow> pyerr + nat ndarray \<times> 'g" where
  "numpy_random_choice L n size_arg replace p g =
     (if n = 0 then Inl ValueError
      else if (case p of None \<Rightarrow> False | Some ws \<Rightarrow> length ws \<noteq> n) then Inl ValueError
      else case np_size size_arg of
        Inl e \<Rightarrow> Inl e
      | Inr sh \<Rightarrow>
          if replace then
            (case draw_many (index_below L n p) (prod_list sh) g of
               (xs, g1) \<Rightarrow> Inr (\<lparr>shape = sh, data = xs\<rparr>, g1))
          else if n < prod_list sh then Inl ValueError
          else
            (case p of
               None \<Rightarrow>
                 (case draw_distinct (\<lambda>pool. next_index L (length pool)) [0..<n] (prod_list sh) g of
                    (xs, g1) \<Rightarrow> Inr (\<lparr>shape = sh, data = xs\<rparr>, g1))
             | Some ws \<Rightarrow>
                 (case draw_distinct (\<lambda>pool. next_weighted L (renormalised (map snd pool)))
                         (zip [0..<n] ws) (prod_list sh) g of
                    (xs, g1) \<Rightarrow> Inr (\<lparr>shape = sh, data = map fst xs\<rparr>, g1))))"

text \<open>The methods of \<^verbatim>\<open>RandomEnv\<close> draw from numpy's global generator.\<close>

definition RandomEnv_randint ::
  "'g libs \<Rightarrow> int \<Rightarrow> int \<Rightarrow> pyval option \<Rightarrow> 'g world \<Rightarrow> pyerr + int ndarray \<times> 'g world" where
  "RandomEnv_randint L a b size_arg w =
     (case numpy_random_random_integers L a b size_arg (gen w) of
        Inl e \<Rightarrow> Inl e
      | Inr (arr, g1) \<Rightarrow> Inr (arr, w\<lparr>gen := g1\<rparr>))"

definition RandomEnv_randreal ::
  "'g libs \<Rightarrow> real \<Rightarrow> real \<Rightarrow> pyval option \<Rightarrow> 'g world \<Rightarrow> pyerr + real ndarray \<times> 'g world" where
  "RandomEnv_randreal L a b size_arg w =
     (case numpy_random_uniform L a b size_arg (gen w) of
        Inl e \<Rightarrow> Inl e
      | Inr (arr, g1) \<Rightarrow> Inr (arr, w\<lparr>gen := g1\<rparr>))"

definition RandomEnv_randchoice ::
  "'g libs \<Rightarrow> nat \<Rightarrow> pyval \<Rightarrow> bool \<Rightarrow> real list option \<Rightarrow> 'g world \<Rightarrow> pyerr + nat ndarray \<times> 'g world" where
  "RandomEnv_randchoice L n size_arg replace p w =
     (case numpy_random_choice L n size_arg replace p (gen w) of
        Inl e \<Rightarrow> Inl e
      | Inr (arr, g1) \<Rightarrow> Inr (arr, w\<lparr>gen := g1\<rparr>))"

section \<open>The shape builder \<^verbatim>\<open>_from_numpy\<close>\<close>

text \<open>
  \<^verbatim>\<open>a.shape[0]\<close> of a scalar raises \<^verbatim>\<open>IndexError\<close>, and iterating over a scalar
  raises \<^verbatim>\<open>TypeError\<close>.
\<close>

function from_numpy :: "'a ndarray \<Rightarrow> ('a ndarray \<Rightarrow> pyerr + expr) \<Rightarrow> nat \<Rightarrow> pyerr + expr" where
  "from_numpy a new_element d =
     (if length (shape a) = d then
        (case shape a of
           [] \<Rightarrow> Inl TypeError
         | n # ns \<Rightarrow>
             (case sequence_err (map (\<lambda>k. new_element (nd_sub a k)) [0..<n]) of
                Inl e \<Rightarrow> Inl e
              | Inr ls \<Rightarrow> Inr (Expression ''System`List'' ls)))
      else
        (case shape a of
           [] \<Rightarrow> Inl IndexError
         | n # ns \<Rightarrow>
             (case sequence_err (map (\<lambda>k. from_numpy (nd_sub a k) new_element d) [0..<n]) of
                Inl e \<Rightarrow> Inl e
              | Inr ls \<Rightarrow> Inr (Expression ''System`List'' ls))))"
  by pat_completeness auto
termination
  by (relation "measure (\<lambda>(a, new_element, d). length (shape a))") (auto simp: nd_sub_def Let_def)

declare from_numpy.simps [simp del]

text \<open>
  The leaf constructors handed to \<^verbatim>\<open>_from_numpy\<close>: \<^verbatim>\<open>Integer\<close> and
  \<^verbatim>\<open>Real\<close> take a scalar, \<^verbatim>\<open>lambda c: Complex(*c)\<close> unpacks a row of exactly two
  scalars, \<^verbatim>\<open>lambda i: elements[i]\<close> indexes the element list.
\<close>

definition Integer_leaf :: "int ndarray \<Rightarrow> pyerr + expr" where
  "Integer_leaf x = (case (shape x, data x) of ([], [v]) \<Rightarrow> Inr (Integer v) | _ \<Rightarrow> Inl TypeError)"

definition Real_leaf :: "real ndarray \<Rightarrow> pyerr + expr" where
  "Real_leaf x = (case (shape x, data x) of ([], [v]) \<Rightarrow> Inr (Real_expr v) | _ \<Rightarrow> Inl TypeError)"

definition Complex_leaf :: "real ndarray \<Rightarrow> pyerr + expr" where
  "Complex_leaf c =
     (case (shape c, data c) of
        ([n], [x, y]) \<Rightarrow> Inr (Complex_expr x y)
      | _ \<Rightarrow> Inl TypeError)"

definition element_leaf :: "expr list \<Rightarrow> nat ndarray \<Rightarrow> pyerr + expr" where
  "element_leaf elements i =
     (case (shape i, data i) of
        ([], [k]) \<Rightarrow> nth_py elements k
      | _ \<Rightarrow> Inl TypeError)"


section \<open>The builtins\<close>

subsection \<open>\<^verbatim>\<open>$RandomState\<close> and \<^verbatim>\<open>SeedRandom\<close>\<close>

text \<open>
  A builtin's \<^verbatim>\<open>apply\<close> returns an expression, returns \<^verbatim>\<open>None\<close> (the call stays
  unevaluated; \<^verbatim>\<open>evaluation.message\<close> returns \<^verbatim>\<open>None\<close> too) or raises.
\<close>

type_synonym 'g builtin_result = "(pyerr + expr option) \<times> 'g world"

definition RandomState_messages :: "string \<Rightarrow> string option" where
  "RandomState_messages tag =
     (if tag = ''rndst'' then Some ''It is not possible to change the random state.'' else None)"

definition RandomState_apply :: "'g libs \<Rightarrow> 'g world \<Rightarrow> 'g builtin_result" where
  "RandomState_apply L w =
     with_RandomEnv L
       (\<lambda>w1. case get_random_state L w1 of
                Inl e \<Rightarrow> (Inl e, w1)
              | Inr s \<Rightarrow> (Inr (Some (Integer s)), w1)) w"

definition SeedRandom_apply :: "'g libs \<Rightarrow> expr \<Rightarrow> 'g world \<Rightarrow> 'g builtin_result" where
  "SeedRandom_apply L x w =
     (case (case x of
              Integer v \<Rightarrow> Some v
            | String s \<Rightarrow> Some (int (md5_int L s))
            | _ \<Rightarrow> None) of
        None \<Rightarrow> (Inr None, evaluation_message ''SeedRandom'' ''seed'' [x] w)
      | Some v \<Rightarrow>
          (case with_RandomEnv L
                  (\<lambda>w1. case RandomEnv_seed L (Some v) w1 of
                           Inl e \<Rightarrow> (Inl e, w1)
                         | Inr w2 \<Rightarrow> (Inr (), w2)) w of
             (Inl e, w3) \<Rightarrow> (Inl e, w3)
           | (Inr u, w3) \<Rightarrow> (Inr (Some (Symbol ''System`Null'')), w3)))"

definition SeedRandom_apply_empty :: "'g libs \<Rightarrow> 'g world \<Rightarrow> 'g builtin_result" where
  "SeedRandom_apply_empty L w =
     (case with_RandomEnv L
             (\<lambda>w1. case RandomEnv_seed L None w1 of
                      Inl e \<Rightarrow> (Inl e, w1)
                    | Inr w2 \<Rightarrow> (Inr (), w2)) w of
        (Inl e, w3) \<Rightarrow> (Inl e, w3)
      | (Inr u, w3) \<Rightarrow> (Inr (Some (Symbol ''System`Null'')), w3))"

text \<open>
  Modelled from the spec: the assignment \<^verbatim>\<open>$RandomState = rhs\<close>. The code that
  handles assignments is not among the source files (only the message \<^verbatim>\<open>rndst\<close> and
  the docstring of \<^verbatim>\<open>RandomState\<close> are). The spec: "any assignment attempt is
  rejected with a fixed message", the operation "is a no-op" and "the assignment's
  right-hand value is still echoed".
\<close>

definition assign_RandomState :: "expr \<Rightarrow> 'g world \<Rightarrow> 'g builtin_result" where
  "assign_RandomState rhs w = (Inr (Some rhs), evaluation_message ''$RandomState'' ''rndst'' [] w)"

subsection \<open>\<^verbatim>\<open>_RandomBase\<close>\<close>

text \<open>
  The rewrite rules of \<^verbatim>\<open>_RandomBase\<close>, on the argument list of a call:
  \<^verbatim>\<open>name[spec_]\<close> becomes \<^verbatim>\<open>name[spec, {1}]\<close> and \<^verbatim>\<open>name[spec_, n_Integer]\<close>
  becomes \<^verbatim>\<open>name[spec, {n}]\<close>; no rule applies to any other call.
\<close>

fun RandomBase_rules :: "expr list \<Rightarrow> expr list option" where
  "RandomBase_rules [spec] = Some [spec, Expression ''System`List'' [Integer 1]]"
| "RandomBase_rules [spec, Integer n] = Some [spec, Expression ''System`List'' [Integer n]]"
| "RandomBase_rules _ = None"

text \<open>
  \<^verbatim>\<open>_size_to_python\<close> returns a pair whose second component is the Python size or
  \<^verbatim>\<open>None\<close>; the first component is \<^verbatim>\<open>False\<close> or what \<^verbatim>\<open>evaluation.message\<close>
  returned (\<^verbatim>\<open>None\<close>), so the model keeps the second component only.
\<close>

definition size_to_python ::
  "string \<Rightarrow> expr \<Rightarrow> expr \<Rightarrow> 'g world \<Rightarrow> (pyerr + pyval option) \<times> 'g world" where
  "size_to_python name domain size_arg w =
     (case iter_expr size_arg of
        Inl e \<Rightarrow> (Inl e, w)
      | Inr items \<Rightarrow>
          if \<not> list_all is_numeric items then
            (Inr None,
             evaluation_message name ''array'' [size_arg, Expression name [domain, size_arg]] w)
          else
            (let py_size = to_python size_arg
             in case iter_py py_size of
                  Inl e \<Rightarrow> (Inl e, w)
                | Inr xs \<Rightarrow>
                    if \<not> list_all is_nonneg_int xs then
                      (Inr None,
                       evaluation_message name ''array''
                         [size_arg, Expression name [domain, size_arg]] w)
                    else (Inr (Some py_size), w)))"

subsection \<open>\<^verbatim>\<open>RandomInteger\<close>, \<^verbatim>\<open>RandomReal\<close>, \<^verbatim>\<open>RandomComplex\<close>\<close>

definition RandomInteger_apply :: "'g libs \<Rightarrow> expr \<Rightarrow> expr \<Rightarrow> 'g world \<Rightarrow> 'g builtin_result" where
  "RandomInteger_apply L rmin rmax w =
     (case (rmin, rmax) of
        (Integer a, Integer b) \<Rightarrow>
          with_RandomEnv L
            (\<lambda>w1. case RandomEnv_randint L a b None w1 of
                     Inl e \<Rightarrow> (Inl e, w1)
                   | Inr (arr, w2) \<Rightarrow>
                       (case Integer_leaf arr of
                          Inl e \<Rightarrow> (Inl e, w2)
                        | Inr r \<Rightarrow> (Inr (Some r), w2))) w
      | _ \<Rightarrow>
          (Inr None,
           evaluation_message ''RandomInteger'' ''unifr'' [Expression ''System`List'' [rmin, rmax]] w))"

text \<open>The pattern of \<^verbatim>\<open>apply_list\<close> is \<^verbatim>\<open>ns_?ListQ\<close>: \<open>ns\<close> is a list.\<close>

definition RandomInteger_apply_list ::
  "'g libs \<Rightarrow> expr \<Rightarrow> expr \<Rightarrow> expr \<Rightarrow> 'g world \<Rightarrow> 'g builtin_result" where
  "RandomInteger_apply_list L rmin rmax ns w =
     (case (rmin, rmax) of
        (Integer a, Integer b) \<Rightarrow>
          (let result = to_python ns
           in with_RandomEnv L
                (\<lambda>w1. case RandomEnv_randint L a b (Some result) w1 of
                         Inl e \<Rightarrow> (Inl e, w1)
                       | Inr (arr, w2) \<Rightarrow>
                           (case from_numpy arr Integer_leaf 1 of
                              Inl e \<Rightarrow> (Inl e, w2)
                            | Inr r \<Rightarrow> (Inr (Some r), w2))) w)
      | _ \<Rightarrow>
          (Inr None,
           evaluation_message ''RandomInteger'' ''unifr'' [Expression ''System`List'' [rmin, rmax]] w))"

text \<open>\<^verbatim>\<open>isinstance(x, (Real, Integer))\<close> and the Python value of such an endpoint.\<close>

fun real_endpoint :: "expr \<Rightarrow> real option" where
  "real_endpoint (Integer n) = Some (of_int n)"
| "real_endpoint (Real_expr x) = Some x"
| "real_endpoint _ = None"

definition RandomReal_apply_list ::
  "'g libs \<Rightarrow> expr \<Rightarrow> expr \<Rightarrow> expr \<Rightarrow> 'g world \<Rightarrow> 'g builtin_result" where
  "RandomReal_apply_list L xmin xmax ns w =
     (case (real_endpoint xmin, real_endpoint xmax) of
        (Some min_value, Some max_value) \<Rightarrow>
          (let result = to_python ns
           in case iter_py result of
                Inl e \<Rightarrow> (Inl e, w)
              | Inr xs \<Rightarrow>
                  if \<not> list_all is_nonneg_int xs then
                    (Inr None,
                     evaluation_message ''RandomReal'' ''array''
                       [Expression ''RandomReal'' [Expression ''System`List'' [xmin, xmax], ns], ns] w)
                  else
                    with_RandomEnv L
                      (\<lambda>w1. case RandomEnv_randreal L min_value max_value (Some result) w1 of
                               Inl e \<Rightarrow> (Inl e, w1)
                             | Inr (arr, w2) \<Rightarrow>
                                 (case from_numpy arr Real_leaf 1 of
                                    Inl e \<Rightarrow> (Inl e, w2)
                                  | Inr r \<Rightarrow> (Inr (Some r), w2))) w)
      | _ \<Rightarrow>
          (Inr None,
           evaluation_message ''RandomReal'' ''unifr'' [Expression ''System`List'' [xmin, xmax]] w))"

text \<open>
  \<^verbatim>\<open>if Expression('RealNumberQ', z).evaluate(evaluation)\<close> tests the truth value
  of the expression that \<^verbatim>\<open>evaluate\<close> returns, the symbol \<^verbatim>\<open>True\<close> or
  \<^verbatim>\<open>False\<close>; a Python object that defines no truth value of its own is true, so
  the branch is taken for every endpoint and every endpoint is replaced by
  \<^verbatim>\<open>Complex(z, 0.0)\<close>.

  Modelled from the spec: the constructor \<^verbatim>\<open>Complex\<close> of the missing
  \<^verbatim>\<open>mathics.core.expression\<close>. The spec: "A plain real number given where a complex
  corner is expected is promoted to a complex value with zero imaginary part". A real
  number atom as real part gives that complex value; any other expression is no real
  part, and the constructor raises (\<open>TypeError\<close> stands for whatever it raises).
\<close>

fun Complex_new :: "expr \<Rightarrow> real \<Rightarrow> pyerr + expr" where
  "Complex_new (Integer n) im = Inr (Complex_expr (of_int n) im)"
| "Complex_new (Real_expr x) im = Inr (Complex_expr x im)"
| "Complex_new z im = Inl TypeError"

definition RandomComplex_apply_list ::
  "'g libs \<Rightarrow> expr \<Rightarrow> expr \<Rightarrow> expr \<Rightarrow> 'g world \<Rightarrow> 'g builtin_result" where
  "RandomComplex_apply_list L zmin zmax ns w =
     (let expr = Expression ''RandomComplex'' [Expression ''System`List'' [zmin, zmax], ns]
      in case Complex_new zmin 0 of
        Inl e \<Rightarrow> (Inl e, w)
      | Inr zmin1 \<Rightarrow>
     (case Complex_new zmax 0 of
        Inl e \<Rightarrow> (Inl e, w)
      | Inr zmax1 \<Rightarrow>
     (case (zmin1, zmax1) of
        (Complex_expr min_re min_im, Complex_expr max_re max_im) \<Rightarrow>
          (let py_ns = (case to_python ns of PyList xs \<Rightarrow> xs | v \<Rightarrow> [v])
           in if \<not> list_all is_nonneg_int py_ns then
                (Inr None, evaluation_message ''RandomComplex'' ''array'' [ns, expr] w)
              else
                with_RandomEnv L
                  (\<lambda>w1. case RandomEnv_randreal L min_re max_re (Some (PyList py_ns)) w1 of
                           Inl e \<Rightarrow> (Inl e, w1)
                         | Inr (re_part, w2) \<Rightarrow>
                             (case RandomEnv_randreal L min_im max_im (Some (PyList py_ns)) w2 of
                                Inl e \<Rightarrow> (Inl e, w2)
                              | Inr (im_part, w3) \<Rightarrow>
                                  (case numpy_stack re_part im_part of
                                     Inl e \<Rightarrow> (Inl e, w3)
                                   | Inr stacked \<Rightarrow>
                                       (case from_numpy stacked Complex_leaf 2 of
                                          Inl e \<Rightarrow> (Inl e, w3)
                                        | Inr r \<Rightarrow> (Inr (Some r), w3))))) w)
      | _ \<Rightarrow>
          (Inr None,
           evaluation_message ''RandomComplex'' ''unifr''
             [Expression ''System`List'' [zmin1, zmax1]] w))))"

subsection \<open>\<^verbatim>\<open>_RandomSelection\<close>: \<^verbatim>\<open>RandomChoice\<close> and \<^verbatim>\<open>RandomSample\<close>\<close>

text \<open>
  \<^verbatim>\<open>_weights_to_python\<close> returns a pair: \<^verbatim>\<open>(False, py_weights)\<close>, or the
  \<^verbatim>\<open>None\<close> of \<^verbatim>\<open>evaluation.message\<close> paired with \<^verbatim>\<open>None\<close>.
\<close>

definition weights_to_python ::
  "string \<Rightarrow> expr \<Rightarrow> expr \<Rightarrow> 'g world \<Rightarrow> (pyerr + pyval) \<times> 'g world" where
  "weights_to_python name weights expr w =
     (case iter_expr weights of
        Inl e \<Rightarrow> (Inl e, w)
      | Inr items \<Rightarrow>
          if \<not> list_all is_numeric items then
            (Inr (PyTuple [PyNone, PyNone]), evaluation_message name ''weights'' [weights, expr] w)
          else
            (let py_weights = to_python weights
             in case iter_py py_weights of
                  Inl e \<Rightarrow> (Inl e, w)
                | Inr xs \<Rightarrow>
                    if \<not> list_all is_nonneg_number xs then
                      (Inr (PyTuple [PyNone, PyNone]),
                       evaluation_message name ''weights'' [weights, expr] w)
                    else (Inr (PyTuple [PyBool False, py_weights]), w)))"

text \<open>
  Modelled from the spec: numpy's conversion of a Python sequence to a numeric array,
  which is library code. A flat sequence of numbers converts to their values. A sequence
  with an item that is itself a sequence beside a scalar is ragged and raises
  \<^verbatim>\<open>ValueError\<close>; an item that is no number (\<^verbatim>\<open>None\<close>, a string) gives an
  array of objects whose arithmetic raises \<^verbatim>\<open>TypeError\<close>. Only flat sequences are
  converted; anything else is an error.
\<close>

fun np_number :: "pyval \<Rightarrow> real option" where
  "np_number (PyInt n) = Some (of_int n)"
| "np_number (PyFloat x) = Some x"
| "np_number (PyBool b) = Some (if b then 1 else 0)"
| "np_number _ = None"

fun is_sequence :: "pyval \<Rightarrow> bool" where
  "is_sequence (PyList _) = True"
| "is_sequence (PyTuple _) = True"
| "is_sequence _ = False"

definition np_numbers :: "pyval list \<Rightarrow> pyerr + real list" where
  "np_numbers xs =
     (case those (map np_number xs) of
        Some vs \<Rightarrow> Inr vs
      | None \<Rightarrow> if list_ex is_sequence xs then Inl ValueError else Inl TypeError)"

fun np_asarray :: "pyval \<Rightarrow> pyerr + real list" where
  "np_asarray (PyList xs) = np_numbers xs"
| "np_asarray (PyTuple xs) = np_numbers xs"
| "np_asarray _ = Inl TypeError"

text \<open>\<^verbatim>\<open>numpy.sum(v)\<close>.\<close>

definition numpy_sum :: "pyval \<Rightarrow> pyerr + real" where
  "numpy_sum v = (case np_asarray v of Inl e \<Rightarrow> Inl e | Inr xs \<Rightarrow> Inr (sum_list xs))"

text \<open>
  \<^verbatim>\<open>v /= s\<close> for a Python sequence \<open>v\<close> and a numpy number \<open>s\<close>: a tuple or a
  list has no division of its own, so numpy's reflected division converts \<open>v\<close> to an
  array and divides every item; \<open>v\<close> is rebound to the new array.
\<close>

definition itruediv :: "pyval \<Rightarrow> real \<Rightarrow> pyerr + real list" where
  "itruediv v s = (case np_asarray v of Inl e \<Rightarrow> Inl e | Inr xs \<Rightarrow> Inr (map (\<lambda>x. x / s) xs))"

text \<open>
  The first part of \<^verbatim>\<open>_RandomSelection.apply\<close> (the branches on the head of
  \<open>domain\<close>): an exception, an early return (\<open>Inr (Inl r)\<close>) or the weights and the
  elements the second part draws from.
\<close>

definition RandomSelection_domain ::
  "string \<Rightarrow> expr \<Rightarrow> expr \<Rightarrow> 'g world \<Rightarrow>
     (pyerr + (expr option + real list option \<times> expr list)) \<times> 'g world" where
  "RandomSelection_domain name domain size_arg w =
     (if get_head_name domain = ''System`Rule'' then
        (case leaves domain of
           Inl e \<Rightarrow> (Inl e, w)
         | Inr dls \<Rightarrow>
        (case nth_py dls 0 of
           Inl e \<Rightarrow> (Inl e, w)
         | Inr weights_expr \<Rightarrow>
        (case weights_to_python name weights_expr (Expression name [domain, size_arg]) w of
           (Inl e, w1) \<Rightarrow> (Inl e, w1)
         | (Inr weights, w1) \<Rightarrow>
        (case numpy_sum weights of
           Inl e \<Rightarrow> (Inl e, w1)
         | Inr weight_sum \<Rightarrow>
        (case itruediv weights weight_sum of
           Inl e \<Rightarrow> (Inl e, w1)
         | Inr weights1 \<Rightarrow>
        (case nth_py dls 1 of
           Inl e \<Rightarrow> (Inl e, w1)
         | Inr elements_expr \<Rightarrow>
        (case leaves elements_expr of
           Inl e \<Rightarrow> (Inl e, w1)
         | Inr elements \<Rightarrow>
             if length weights1 \<noteq> length elements then
               (Inr (Inl None), evaluation_message name ''lengths'' [domain] w1)
             else (Inr (Inr (Some weights1, elements)), w1))))))))
      else if get_head_name domain = ''System`List'' then
        (case leaves domain of
           Inl e \<Rightarrow> (Inl e, w)
         | Inr elements \<Rightarrow> (Inr (Inr (None, elements)), w))
      else (Inr (Inl None), evaluation_message name ''list'' [] w))"

text \<open>
  \<^verbatim>\<open>_RandomSelection.apply\<close>; \<open>name\<close> is \<^verbatim>\<open>self.get_name()\<close> and \<open>replace\<close> is
  \<^verbatim>\<open>self._replace\<close> (\<open>True\<close> for \<^verbatim>\<open>RandomChoice\<close>, \<open>False\<close> for
  \<^verbatim>\<open>RandomSample\<close>).
\<close>

definition RandomSelection_apply ::
  "'g libs \<Rightarrow> string \<Rightarrow> bool \<Rightarrow> expr \<Rightarrow> expr \<Rightarrow> 'g world \<Rightarrow> 'g builtin_result" where
  "RandomSelection_apply L name replace domain size_arg w =
     (case RandomSelection_domain name domain size_arg w of
        (Inl e, w1) \<Rightarrow> (Inl e, w1)
      | (Inr (Inl r), w1) \<Rightarrow> (Inr r, w1)
      | (Inr (Inr (weights, elements)), w1) \<Rightarrow>
          (case size_to_python name domain size_arg w1 of
             (Inl e, w2) \<Rightarrow> (Inl e, w2)
           | (Inr None, w2) \<Rightarrow> (Inr None, w2)
           | (Inr (Some py_size), w2) \<Rightarrow>
               with_RandomEnv L
                 (\<lambda>w3. case RandomEnv_randchoice L (length elements) py_size replace weights w3 of
                          Inl e \<Rightarrow> (Inl e, w3)
                        | Inr (arr, w4) \<Rightarrow>
                            (case from_numpy arr (element_leaf elements) 1 of
                               Inl e \<Rightarrow> (Inl e, w4)
                             | Inr r \<Rightarrow> (Inr (Some r), w4))) w2))"

text \<open>
  Modelled from the spec: the evaluator's rule rewriting is an external collaborator. A
  call \<^verbatim>\<open>name[args]\<close> of a selection builtin is first rewritten by the rules of
  \<^verbatim>\<open>_RandomBase\<close> when one applies, and a call with two arguments then reaches
  \<^verbatim>\<open>apply\<close>; any other call stays unevaluated.
\<close>

definition RandomSelection_call ::
  "'g libs \<Rightarrow> string \<Rightarrow> bool \<Rightarrow> expr list \<Rightarrow> 'g world \<Rightarrow> 'g builtin_result" where
  "RandomSelection_call L name replace args w =
     (case (case RandomBase_rules args of Some args1 \<Rightarrow> args1 | None \<Rightarrow> args) of
        [domain, size_arg] \<Rightarrow> RandomSelection_apply L name replace domain size_arg w
      | _ \<Rightarrow> (Inr None, w))"

definition RandomChoice :: "'g libs \<Rightarrow> expr list \<Rightarrow> 'g world \<Rightarrow> 'g builtin_result" where
  "RandomChoice L args w = RandomSelection_call L ''System`RandomChoice'' True args w"

definition RandomSample :: "'g libs \<Rightarrow> expr list \<Rightarrow> 'g world \<Rightarrow> 'g builtin_result" where
  "RandomSample L args w = RandomSelection_call L ''System`RandomSample'' False args w"

section \<open>A small instance of the libraries\<close>

text \<open>
  An instance of the library parameters on which the model runs: the generator state is
  a counter below 256, pickled as the byte \<open>0x80\<close> followed by the counter; a draw
  reads the counter and advances it.
\<close>

definition demo_libs :: "nat libs" where
  "demo_libs =
     \<lparr>pickle_dumps = (\<lambda>g. [128, of_nat g]),
      pickle_loads = (\<lambda>bs. case bs of [h, b] \<Rightarrow> if h = 128 then Some (unat b) else None | _ \<Rightarrow> None),
      mt_init = (\<lambda>n. n mod 256),
      next_int = (\<lambda>lo hi g. (lo + int g mod (hi - lo + 1), Suc g mod 256)),
      next_real = (\<lambda>lo hi g. (lo + (hi - lo) * real g / 256, Suc g mod 256)),
      next_index = (\<lambda>n g. (g mod n, Suc g mod 256)),
      next_weighted = (\<lambda>p g. (g mod length p, Suc g mod 256)),
      md5_int = (\<lambda>s. 2 ^ 127 + length s)\<rparr>"

definition demo_world :: "int option \<Rightarrow> nat \<Rightarrow> nat world" where
  "demo_world persisted g =
     \<lparr>config = (\<lambda>name. if name = ''$RandomState'' then persisted else None),
      gen = g, entropy = (\<lambda>n. n mod 256), ticks = 0, out = []\<rparr>"


section \<open>Nested results\<close>

text \<open>
  What a result of a given shape is: \<open>nested_list leaf [n1, ..., nk] e\<close> holds when
  \<open>e\<close> is a \<^verbatim>\<open>List\<close> of \<open>n1\<close> lists of ... of \<open>nk\<close> expressions that satisfy
  \<open>leaf\<close>, that is a nested list of depth \<open>k\<close>.
\<close>

fun is_complex :: "expr \<Rightarrow> bool" where
  "is_complex (Complex_expr _ _) = True"
| "is_complex _ = False"

fun nested_list :: "(expr \<Rightarrow> bool) \<Rightarrow> nat list \<Rightarrow> expr \<Rightarrow> bool" where
  "nested_list leaf [] e = leaf e"
| "nested_list leaf (n # ns) e =
     (case e of
        Expression h ls \<Rightarrow> h = ''System`List'' \<and> length ls = n \<and> list_all (nested_list leaf ns) ls
      | _ \<Rightarrow> False)"

text \<open>
  The result the spec describes for a shape and the leaves in row-major order: "a nested
  sequence of depth = len(shape)"; for the shape \<open>[2, 3]\<close>, "2 groups of 3". The
  shape \<open>[]\<close> is that of a single leaf.
\<close>

fun nest :: "nat list \<Rightarrow> expr list \<Rightarrow> expr" where
  "nest [] xs = (case xs of [] \<Rightarrow> Expression ''System`List'' [] | x # _ \<Rightarrow> x)"
| "nest (n # ns) xs =
     Expression ''System`List''
       (map (\<lambda>k. nest ns (take (prod_list ns) (drop (k * prod_list ns) xs))) [0..<n])"

text \<open>The items of two lists paired in turn, as \<^verbatim>\<open>numpy.stack\<close> lays them out.\<close>

definition interleave :: "'a list \<Rightarrow> 'a list \<Rightarrow> 'a list" where
  "interleave xs ys = concat (map2 (\<lambda>x y. [x, y]) xs ys)"

section \<open>Sequences of calls\<close>

text \<open>
  The calls of the sampling builtins and of \<^verbatim>\<open>$RandomState\<close>, and a sequence of
  them evaluated in order, each on the evaluation state the one before left (also when
  that one raised). \<open>eval_calls\<close> collects the outcomes.
\<close>

datatype call =
    Call_RandomInteger expr expr
  | Call_RandomInteger_list expr expr expr
  | Call_RandomReal_list expr expr expr
  | Call_RandomComplex_list expr expr expr
  | Call_RandomChoice "expr list"
  | Call_RandomSample "expr list"
  | Call_RandomState

fun eval_call :: "'g libs \<Rightarrow> call \<Rightarrow> 'g world \<Rightarrow> 'g builtin_result" where
  "eval_call L (Call_RandomInteger rmin rmax) w = RandomInteger_apply L rmin rmax w"
| "eval_call L (Call_RandomInteger_list rmin rmax ns) w = RandomInteger_apply_list L rmin rmax ns w"
| "eval_call L (Call_RandomReal_list xmin xmax ns) w = RandomReal_apply_list L xmin xmax ns w"
| "eval_call L (Call_RandomComplex_list zmin zmax ns) w = RandomComplex_apply_list L zmin zmax ns w"
| "eval_call L (Call_RandomChoice args) w = RandomChoice L args w"
| "eval_call L (Call_RandomSample args) w = RandomSample L args w"
| "eval_call L Call_RandomState w = RandomState_apply L w"

fun eval_calls :: "'g libs \<Rightarrow> call list \<Rightarrow> 'g world \<Rightarrow> (pyerr + expr option) list" where
  "eval_calls L [] w = []"
| "eval_calls L (c # cs) w = (case eval_call L c w of (r, w1) \<Rightarrow> r # eval_calls L cs w1)"

text \<open>Two evaluation states with one persisted random state.\<close>

definition same_persisted :: "'g world \<Rightarrow> 'g world \<Rightarrow> bool" where
  "same_persisted w v =
     (case config w ''$RandomState'' of
        None \<Rightarrow> False
      | Some i \<Rightarrow> config v ''$RandomState'' = Some i)"

section \<open>Properties of the state codec\<close>

lemma hexval_hexchar: "n < 16 \<Longrightarrow> hexval (hexchar n) = Some n"
  by (auto simp: hexval_def hexchar_def Let_def)

lemma hexchar_not_L: "n < 16 \<Longrightarrow> hexchar n \<noteq> CHR ''L''"
proof
  assume "n < 16" and "hexchar n = CHR ''L''"
  then have "hexval (CHR ''L'') = Some n" using hexval_hexchar [of n] by simp
  then show False by (simp add: hexval_def)
qed


lemma hex_digits_small: "n < 16 \<Longrightarrow> hex_digits n = [hexchar n]"
  by (subst hex_digits.simps) simp

lemma hex_digits_large: "16 \<le> n \<Longrightarrow> hex_digits n = hex_digits (n div 16) @ [hexchar (n mod 16)]"
  by (subst hex_digits.simps) simp

lemma nibbles_lt: "list_all (\<lambda>d. d < 16) (nibbles bs)"
proof (induction bs)
  case (Cons b bs)
  have "unat b < 256" using unsigned_less [of b, where ?'a = nat] by simp
  then have "unat b div 16 < 16" by simp
  with Cons show ?case by simp
qed simp

lemma b2a_hex_nibbles: "b2a_hex bs = map hexchar (nibbles bs)"
  by (induction bs) auto

lemma those_hexval: "list_all (\<lambda>d. d < 16) ds \<Longrightarrow> those (map hexval (map hexchar ds)) = Some ds"
  by (induction ds) (auto simp: hexval_hexchar)

lemma foldl_pos: "ds \<noteq> [] \<Longrightarrow> hd ds \<noteq> 0 \<Longrightarrow> 0 < foldl (\<lambda>a d. 16 * a + d) (0::nat) ds"
proof (induction ds rule: rev_induct)
  case (snoc d ds)
  then show ?case by (cases ds) auto
qed simp

text \<open>
  Writing a number in hexadecimal gives back the digits it was read from, provided the
  first digit is not zero.
\<close>

lemma hex_digits_foldl:
  "ds \<noteq> [] \<Longrightarrow> hd ds \<noteq> 0 \<Longrightarrow> list_all (\<lambda>d. d < 16) ds \<Longrightarrow>
   hex_digits (foldl (\<lambda>a d. 16 * a + d) 0 ds) = map hexchar ds"
proof (induction ds rule: rev_induct)
  case Nil
  then show ?case by simp
next
  case (snoc d ds)
  show ?case
  proof (cases "ds = []")
    case True
    with snoc.prems show ?thesis by (simp add: hex_digits_small)
  next
    case False
    with snoc.prems have hd: "hd ds \<noteq> 0" and lt: "list_all (\<lambda>d. d < 16) ds" and d: "d < 16"
      by auto
    let ?v = "foldl (\<lambda>a d. 16 * a + d) 0 ds"
    have pos: "0 < ?v" using foldl_pos [OF False hd] .
    have "hex_digits (16 * ?v + d) = hex_digits ((16 * ?v + d) div 16) @ [hexchar ((16 * ?v + d) mod 16)]"
      using pos by (intro hex_digits_large) simp
    also have "(16 * ?v + d) div 16 = ?v" using d by simp
    also have "(16 * ?v + d) mod 16 = d" using d by simp
    finally show ?thesis using snoc.IH [OF False hd lt] by simp
  qed
qed

lemma rstrip_L_id: "s = [] \<or> last s \<noteq> CHR ''L'' \<Longrightarrow> rstrip_L s = s"
  by (cases s rule: rev_cases) (auto simp: rstrip_L_def)

lemma a2b_b2a: "a2b_hex (b2a_hex bs) = Inr bs"
proof (induction bs)
  case (Cons b bs)
  have "unat b < 256" using unsigned_less [of b, where ?'a = nat] by simp
  then have "unat b div 16 < 16" by simp
  moreover have "word_of_nat (16 * (unat b div 16) + unat b mod 16) = b" by simp
  ultimately show ?case using Cons by (simp add: hexval_hexchar)
qed simp

lemma last_b2a_hex: "bs \<noteq> [] \<Longrightarrow> last (b2a_hex bs) \<noteq> CHR ''L''"
proof (induction bs)
  case (Cons b bs)
  have "unat b mod 16 < 16" by simp
  then have "hexchar (unat b mod 16) \<noteq> CHR ''L''" by (rule hexchar_not_L)
  with Cons show ?case by (cases bs) auto
qed simp

lemma encode_value:
  "bs \<noteq> [] \<Longrightarrow> py_int16 (b2a_hex bs) = Inr (int (foldl (\<lambda>a d. 16 * a + d) 0 (nibbles bs)))"
  by (cases bs) (simp_all add: py_int16_def b2a_hex_nibbles those_hexval nibbles_lt del: nibbles.simps map_map, simp)

lemma decode_text:
  assumes "16 \<le> unat b"
  shows "rstrip_L (drop 2 (py_hex (int (foldl (\<lambda>a d. 16 * a + d) 0 (nibbles (b # bs)))))) = b2a_hex (b # bs)"
proof -
  let ?ds = "nibbles (b # bs)"
  have hd: "hd ?ds \<noteq> 0" using assms by simp
  have "hex_digits (foldl (\<lambda>a d. 16 * a + d) 0 ?ds) = map hexchar ?ds"
    by (rule hex_digits_foldl [OF _ hd nibbles_lt]) simp
  then have "drop 2 (py_hex (int (foldl (\<lambda>a d. 16 * a + d) 0 ?ds))) = b2a_hex (b # bs)"
    by (simp add: py_hex_def b2a_hex_nibbles del: nibbles.simps)
  moreover have "rstrip_L (b2a_hex (b # bs)) = b2a_hex (b # bs)"
    by (rule rstrip_L_id) (use last_b2a_hex [of "b # bs"] in simp)
  ultimately show ?thesis by simp
qed

lemma get_random_state_total:
  "pickle_dumps L (gen w) \<noteq> [] \<Longrightarrow> \<exists>s. get_random_state L w = Inr s \<and> 0 \<le> s"
  using encode_value [of "pickle_dumps L (gen w)"] by (simp add: get_random_state_def)

text \<open>
  Decoding what was encoded: the pickled state starts with a byte whose high nibble is
  not zero (every pickle starts with an opcode of that kind), so no leading digit is
  lost in the integer.
\<close>

lemma decode_encode:
  assumes loads: "pickle_loads L (pickle_dumps L (gen w)) = Some (gen w)"
    and first: "pickle_dumps L (gen w) = b # bs"
    and high: "16 \<le> unat b"
  shows "\<exists>s. get_random_state L w = Inr s \<and> 0 \<le> s \<and>
             (\<forall>w'. set_random_state L (Some s) w' = Inr (w'\<lparr>gen := gen w\<rparr>))"
proof -
  let ?s = "int (foldl (\<lambda>a d. 16 * a + d) 0 (nibbles (b # bs)))"
  have enc: "get_random_state L w = Inr ?s"
    using encode_value [of "b # bs"]
    by (simp add: get_random_state_def first del: nibbles.simps b2a_hex.simps)
  have "a2b_hex (rstrip_L (drop 2 (py_hex ?s))) = Inr (pickle_dumps L (gen w))"
    unfolding decode_text [OF high] a2b_b2a first ..
  then have "\<forall>w'. set_random_state L (Some ?s) w' = Inr (w'\<lparr>gen := gen w\<rparr>)"
    using loads by (simp add: set_random_state_def del: nibbles.simps)
  with enc show ?thesis by simp
qed

text \<open>
  C1. For a generator state whose pickle loads back to it, decoding the encoded state
  restores it exactly: \<^verbatim>\<open>set_random_state(get_random_state())\<close> succeeds and installs
  the state that was captured, whatever state the generator was in before.
\<close>

theorem state_codec_round_trip:
  assumes "pickle_loads L (pickle_dumps L (gen w)) = Some (gen w)"
    and "pickle_dumps L (gen w) = b # bs"
    and "16 \<le> unat b"
  shows "\<exists>s. get_random_state L w = Inr s \<and> 0 \<le> s \<and>
             set_random_state L (Some s) w' = Inr (w'\<lparr>gen := gen w\<rparr>)"
  using decode_encode [OF assms] by blast

theorem state_codec_round_trip_witness:
  "pickle_loads demo_libs (pickle_dumps demo_libs (gen (demo_world None 7))) = Some (gen (demo_world None 7)) \<and>
   pickle_dumps demo_libs (gen (demo_world None 7)) = [128, 7] \<and> 16 \<le> unat (128 :: byte) \<and>
   (\<exists>s. get_random_state demo_libs (demo_world None 7) = Inr s \<and> 0 \<le> s \<and>
        set_random_state demo_libs (Some s) (demo_world None 3) =
          Inr ((demo_world None 3)\<lparr>gen := gen (demo_world None 7)\<rparr>))"
proof -
  have a: "pickle_loads demo_libs (pickle_dumps demo_libs (gen (demo_world None 7))) = Some (gen (demo_world None 7))"
    by (simp add: demo_libs_def demo_world_def)
  have b: "pickle_dumps demo_libs (gen (demo_world None 7)) = [128, 7]"
    by (simp add: demo_libs_def demo_world_def)
  have c: "16 \<le> unat (128 :: byte)" by simp
  from state_codec_round_trip [OF a b c, of "demo_world None 3"] a b c show ?thesis by simp
qed

section \<open>Properties of the scoped state session\<close>



section \<open>Properties of the sampling builtins\<close>

lemma set_random_state_out:
  "set_random_state L st w = Inr w1 \<Longrightarrow> out w1 = out w \<and> config w1 = config w"
  by (auto simp: set_random_state_def numpy_random_seed_def Let_def split: option.splits sum.splits)

lemma RandomEnv_enter_frame:
  "RandomEnv_enter L w = Inr w1 \<Longrightarrow> out w1 = out w \<and> config w1 = config w"
  by (simp add: RandomEnv_enter_def set_random_state_out)

lemma RandomEnv_exit_frame:
  "RandomEnv_exit L w = Inr w1 \<Longrightarrow> out w1 = out w \<and> gen w1 = gen w"
  by (auto simp: RandomEnv_exit_def set_config_value_def split: sum.splits)

lemma with_RandomEnv_out:
  assumes "\<And>w1. out (snd (body w1)) = out w1"
  shows "out (snd (with_RandomEnv L body w)) = out w"
proof (cases "RandomEnv_enter L w")
  case (Inl e)
  then show ?thesis by (simp add: with_RandomEnv_def)
next
  case (Inr w1)
  obtain r w2 where b: "body w1 = (r, w2)" by (cases "body w1")
  with assms [of w1] have o: "out w2 = out w1" by simp
  show ?thesis
  proof (cases "RandomEnv_exit L w2")
    case (Inl e)
    with Inr b o RandomEnv_enter_frame [OF Inr] show ?thesis by (simp add: with_RandomEnv_def)
  next
    case (Inr w3)
    with \<open>RandomEnv_enter L w = Inr w1\<close> b o RandomEnv_enter_frame [of L w w1] RandomEnv_exit_frame [OF Inr]
    show ?thesis by (simp add: with_RandomEnv_def)
  qed
qed

lemma with_RandomEnv_raises:
  assumes "\<And>w1. isl (fst (body w1))"
  shows "isl (fst (with_RandomEnv L body w))"
proof (cases "RandomEnv_enter L w")
  case (Inl e)
  then show ?thesis by (simp add: with_RandomEnv_def)
next
  case (Inr w1)
  obtain r w2 where b: "body w1 = (r, w2)" by (cases "body w1")
  with assms [of w1] have "isl r" by simp
  with Inr b show ?thesis by (simp add: with_RandomEnv_def split: sum.splits)
qed

lemma randint_negative_dimension:
  "RandomEnv_randint L a b (Some (PyList [PyInt (- 1)])) w = Inl ValueError"
  by (simp add: RandomEnv_randint_def numpy_random_random_integers_def)

text \<open>
  C3. \<^verbatim>\<open>RandomInteger[{a, b}, {-1}]\<close>: the shape \<^verbatim>\<open>{-1}\<close> is not a sequence of
  non-negative integers, yet \<^verbatim>\<open>RandomInteger.apply_list\<close> does not validate it.
  The call raises (numpy rejects the size inside the session) and issues no message, so
  the "invalid array dimensions" message is never reported for it.
\<close>

theorem RandomInteger_negative_dimension:
  "isl (fst (RandomInteger_apply_list L (Integer a) (Integer b) (Expression ''System`List'' [Integer (- 1)]) w)) \<and>
   out (snd (RandomInteger_apply_list L (Integer a) (Integer b) (Expression ''System`List'' [Integer (- 1)]) w)) = out w"
proof -
  let ?body = "\<lambda>w1. case RandomEnv_randint L a b (Some (PyList [PyInt (- 1)])) w1 of
                        Inl e \<Rightarrow> (Inl e, w1)
                      | Inr (arr, w2) \<Rightarrow>
                          (case from_numpy arr Integer_leaf 1 of
                             Inl e \<Rightarrow> (Inl e, w2)
                           | Inr r \<Rightarrow> (Inr (Some r), w2))"
  have run: "RandomInteger_apply_list L (Integer a) (Integer b) (Expression ''System`List'' [Integer (- 1)]) w
             = with_RandomEnv L ?body w"
    by (simp add: RandomInteger_apply_list_def)
  have body: "\<And>w1. ?body w1 = (Inl ValueError, w1)"
    by (simp add: randint_negative_dimension)
  show ?thesis
    unfolding run by (intro conjI with_RandomEnv_raises with_RandomEnv_out) (simp_all add: body)
qed

text \<open>
  The sibling \<^verbatim>\<open>RandomReal.apply_list\<close> validates the same shape and reports the
  message \<^verbatim>\<open>array\<close>, naming the call and the specification, before any session.
\<close>

lemma RandomReal_negative_dimension:
  "RandomReal_apply_list L (Integer a) (Integer b) (Expression ''System`List'' [Integer (- 1)]) w =
     (Inr None,
      evaluation_message ''RandomReal'' ''array''
        [Expression ''RandomReal''
           [Expression ''System`List'' [Integer a, Integer b], Expression ''System`List'' [Integer (- 1)]],
         Expression ''System`List'' [Integer (- 1)]] w)"
  by (simp add: RandomReal_apply_list_def)

lemma numpy_sum_message_pair: "numpy_sum (PyTuple [PyNone, PyNone]) = Inl TypeError"
  by (simp add: numpy_sum_def np_numbers_def)

text \<open>
  The pair \<^verbatim>\<open>(False, py_weights)\<close> of a weights expression is no array of numbers
  either: \<^verbatim>\<open>numpy.sum\<close> of it raises.
\<close>

lemma np_number_to_python: "np_number (to_python (Expression h ls)) = None"
  by simp

lemma numpy_sum_weights_pair:
  "isl (numpy_sum (PyTuple [PyBool False, to_python (Expression h ls)]))"
  by (simp add: numpy_sum_def np_numbers_def)

text \<open>
  \<^verbatim>\<open>_weights_to_python\<close> raises at its first line, the iteration over the weights
  expression; it never returns.
\<close>

lemma weights_to_python_raises:
  "weights_to_python name weights expr w = (Inl TypeError, w)"
  by (simp add: weights_to_python_def iter_expr_def)

lemma weights_to_python_sum:
  "weights_to_python name weights expr w = (Inr v, w1) \<Longrightarrow> isl (numpy_sum v)"
  by (simp add: weights_to_python_raises)

lemma RandomSelection_domain_rule:
  "isl (fst (RandomSelection_domain name (Expression ''System`Rule'' ls) size_arg w))"
proof (cases "nth_py ls 0")
  case (Inl e)
  then show ?thesis by (simp add: RandomSelection_domain_def)
next
  case (Inr weights_expr)
  let ?r = "weights_to_python name weights_expr
              (Expression name [Expression ''System`Rule'' ls, size_arg]) w"
  obtain r w1 where rw: "?r = (r, w1)" by (cases ?r)
  show ?thesis
  proof (cases r)
    case (Inl e)
    with Inr rw show ?thesis by (simp add: RandomSelection_domain_def)
  next
    case (Inr v)
    with rw have "isl (numpy_sum v)" by (auto dest: weights_to_python_sum)
    then obtain e where "numpy_sum v = Inl e" by (cases "numpy_sum v") auto
    with \<open>nth_py ls 0 = Inr weights_expr\<close> rw Inr show ?thesis
      by (simp add: RandomSelection_domain_def)
  qed
qed

lemma RandomChoice_weighted_example:
  "RandomChoice L
     [Expression ''System`Rule''
        [Expression ''System`List'' [Integer 1, Integer 2],
         Expression ''System`List'' [Symbol ''a'', Symbol ''b'']]] w = (Inl TypeError, w)"
  by (simp add: RandomChoice_def RandomSelection_call_def RandomSelection_apply_def
      RandomSelection_domain_def nth_py_def weights_to_python_raises)

text \<open>
  C4. A call of \<^verbatim>\<open>RandomChoice\<close> or \<^verbatim>\<open>RandomSample\<close> whose domain is a rule
  \<^verbatim>\<open>weights -> elements\<close> always raises. \<^verbatim>\<open>_weights_to_python\<close> iterates over
  the weights expression itself, which raises \<^verbatim>\<open>TypeError\<close>; and were it to return,
  its pair is not unpacked and \<^verbatim>\<open>numpy.sum\<close> of the pair raises. Weights are
  therefore never validated, normalised nor used, and no message is reached;
  \<^verbatim>\<open>RandomChoice[{1, 2} -> {a, b}]\<close> raises \<^verbatim>\<open>TypeError\<close> and leaves the
  evaluation state as it was.
\<close>

theorem RandomSelection_rule_domain_raises:
  "isl (fst (RandomSelection_apply L name replace (Expression ''System`Rule'' [weights, elements]) size_arg w)) \<and>
   RandomChoice L
     [Expression ''System`Rule''
        [Expression ''System`List'' [Integer 1, Integer 2],
         Expression ''System`List'' [Symbol ''a'', Symbol ''b'']]] w = (Inl TypeError, w)"
proof
  let ?d = "RandomSelection_domain name (Expression ''System`Rule'' [weights, elements]) size_arg w"
  have "isl (fst ?d)" by (rule RandomSelection_domain_rule)
  then obtain e w1 where "?d = (Inl e, w1)" by (cases ?d) (auto simp: isl_def)
  then show "isl (fst (RandomSelection_apply L name replace
      (Expression ''System`Rule'' [weights, elements]) size_arg w))"
    by (simp add: RandomSelection_apply_def)
next
  show "RandomChoice L
     [Expression ''System`Rule''
        [Expression ''System`List'' [Integer 1, Integer 2],
         Expression ''System`List'' [Symbol ''a'', Symbol ''b'']]] w = (Inl TypeError, w)"
    by (rule RandomChoice_weighted_example)
qed

lemma seed_out_of_range:
  "v < 0 \<or> 2 ^ 32 \<le> v \<Longrightarrow> RandomEnv_seed L (Some v) w = Inl ValueError"
  by (auto simp: RandomEnv_seed_def numpy_random_seed_def)

text \<open>
  Seeding with an integer outside \<open>0 .. 2^32 - 1\<close> raises: \<^verbatim>\<open>RandomEnv.seed\<close>
  hands the value to \<^verbatim>\<open>numpy.random.seed\<close> as it is.
\<close>

lemma SeedRandom_integer_raises:
  assumes "v < 0 \<or> 2 ^ 32 \<le> v"
  shows "isl (fst (SeedRandom_apply L (Integer v) w))"
proof -
  let ?body = "\<lambda>w1. case RandomEnv_seed L (Some v) w1 of
                        Inl e \<Rightarrow> (Inl e :: pyerr + unit, w1)
                      | Inr w2 \<Rightarrow> (Inr (), w2)"
  have "isl (fst (with_RandomEnv L ?body w))"
    by (rule with_RandomEnv_raises) (simp add: seed_out_of_range [OF assms])
  then show ?thesis
    by (cases "with_RandomEnv L ?body w") (auto simp: SeedRandom_apply_def isl_def)
qed

text \<open>
  The same for a string whose MD5 value is not below \<open>2^32\<close>; the MD5 value of
  \<^verbatim>\<open>"Mathics"\<close> is \<^verbatim>\<open>0xa9e4482fa1e5ca7172b6e1139f9fa105\<close>.
\<close>

lemma SeedRandom_string_raises:
  assumes "2 ^ 32 \<le> md5_int L s"
  shows "isl (fst (SeedRandom_apply L (String s) w))"
proof -
  let ?v = "int (md5_int L s)"
  let ?body = "\<lambda>w1. case RandomEnv_seed L (Some ?v) w1 of
                        Inl e \<Rightarrow> (Inl e :: pyerr + unit, w1)
                      | Inr w2 \<Rightarrow> (Inr (), w2)"
  from assms have "2 ^ 32 \<le> ?v" by (metis of_nat_le_iff of_nat_numeral of_nat_power)
  then have "isl (fst (with_RandomEnv L ?body w))"
    by (intro with_RandomEnv_raises) (simp add: seed_out_of_range)
  then show ?thesis
    by (cases "with_RandomEnv L ?body w") (auto simp: SeedRandom_apply_def isl_def)
qed

text \<open>
  C6. \<^verbatim>\<open>SeedRandom[-1]\<close> and \<^verbatim>\<open>SeedRandom[2^32]\<close> raise instead of returning
  \<^verbatim>\<open>Null\<close>, whatever the libraries and the evaluation state are.
\<close>

theorem SeedRandom_raises:
  "isl (fst (SeedRandom_apply L (Integer (- 1)) w)) \<and>
   isl (fst (SeedRandom_apply L (Integer (2 ^ 32)) w))"
  by (simp add: SeedRandom_integer_raises)

section \<open>Runs on the small instance\<close>

lemma demo_get_random_state:
  assumes "gen w < 256"
  shows "get_random_state demo_libs w = Inr (32768 + int (gen w))"
proof -
  have "unat (word_of_nat (gen w) :: byte) = gen w"
    using assms by (simp add: unat_of_nat)
  then have "foldl (\<lambda>a d. 16 * a + d) 0 (nibbles [128, word_of_nat (gen w) :: byte]) = 32768 + gen w"
    by simp
  then show ?thesis
    using encode_value [of "[128, word_of_nat (gen w) :: byte]"]
    by (simp add: get_random_state_def demo_libs_def del: nibbles.simps b2a_hex.simps)
qed

lemma demo_set_random_state:
  assumes "g < 256"
  shows "set_random_state demo_libs (Some (32768 + int g)) w = Inr (w\<lparr>gen := g\<rparr>)"
proof -
  let ?v = "w\<lparr>gen := g\<rparr>"
  have u: "unat (word_of_nat g :: byte) = g" using assms by (simp add: unat_of_nat)
  have a: "pickle_loads demo_libs (pickle_dumps demo_libs (gen ?v)) = Some (gen ?v)"
    by (simp add: demo_libs_def u)
  have b: "pickle_dumps demo_libs (gen ?v) = 128 # [word_of_nat g]"
    by (simp add: demo_libs_def)
  have c: "16 \<le> unat (128 :: byte)" by simp
  from decode_encode [OF a b c] demo_get_random_state [of ?v] assms
  show ?thesis by auto
qed

lemma demo_enter:
  assumes "g < 256"
  shows "RandomEnv_enter demo_libs (demo_world (Some (32768 + int g)) g0) = Inr (demo_world (Some (32768 + int g)) g)"
  using demo_set_random_state [OF assms, of "demo_world (Some (32768 + int g)) g0"]
  by (simp add: RandomEnv_enter_def get_config_value_def demo_world_def)

lemma demo_exit:
  assumes "g < 256"
  shows "RandomEnv_exit demo_libs (demo_world p g) = Inr (demo_world (Some (32768 + int g)) g)"
  using demo_get_random_state [of "demo_world p g"] assms
  by (auto simp: RandomEnv_exit_def set_config_value_def demo_world_def)

lemma demo_SeedRandom_negative:
  assumes "g < 256"
  shows "SeedRandom_apply demo_libs (Integer (- 1)) (demo_world (Some (32768 + int g)) g0) =
           (Inl ValueError, demo_world (Some (32768 + int g)) g)"
  using assms
  by (simp add: SeedRandom_apply_def with_RandomEnv_def demo_enter demo_exit seed_out_of_range)

lemma demo_RandomInteger:
  assumes "g < 255"
  shows "RandomInteger_apply demo_libs (Integer 0) (Integer 100) (demo_world (Some (32768 + int g)) g0) =
           (Inr (Some (Integer (int g mod 101))), demo_world (Some (32768 + int (Suc g))) (Suc g))"
proof -
  have "RandomEnv_randint demo_libs 0 100 None (demo_world (Some (32768 + int g)) g) =
          Inr (\<lparr>shape = [], data = [int g mod 101]\<rparr>, demo_world (Some (32768 + int g)) (Suc g))"
    using assms
    by (simp add: RandomEnv_randint_def numpy_random_random_integers_def demo_libs_def demo_world_def)
  then show ?thesis
    using assms demo_enter [of g g0] demo_exit [of "Suc g" "Some (32768 + int g)"]
    by (simp add: RandomInteger_apply_def with_RandomEnv_def Integer_leaf_def)
qed

text \<open>
  C7. Seeding twice with the same value does not give the same draws when the
  seed is outside \<open>0 .. 2^32 - 1\<close>: \<^verbatim>\<open>SeedRandom[-1]\<close> raises and leaves the
  generator in the state the session was entered with, so the following
  \<^verbatim>\<open>RandomInteger[{0, 100}]\<close> depends on the state persisted before the seeding. On the
  small instance, from the persisted states 32769 and 32770 the draws are 1 and 2.
\<close>

theorem SeedRandom_not_reproducible:
  "fst (RandomInteger_apply demo_libs (Integer 0) (Integer 100)
          (snd (SeedRandom_apply demo_libs (Integer (- 1)) (demo_world (Some 32769) 0)))) =
     Inr (Some (Integer 1)) \<and>
   fst (RandomInteger_apply demo_libs (Integer 0) (Integer 100)
          (snd (SeedRandom_apply demo_libs (Integer (- 1)) (demo_world (Some 32770) 0)))) =
     Inr (Some (Integer 2))"
  using demo_SeedRandom_negative [of 1 0] demo_SeedRandom_negative [of 2 0]
    demo_RandomInteger [of 1 1] demo_RandomInteger [of 2 2]
  by simp

section \<open>The state accessor\<close>

text \<open>
  Reading \<^verbatim>\<open>$RandomState\<close> returns the encoded state of the generator the session
  installed, and persists that same integer.
\<close>

lemma RandomState_apply_value:
  assumes "RandomState_apply L w = (Inr (Some v), w1)"
  shows "get_random_state L w1 = Inr (case v of Integer s \<Rightarrow> s | _ \<Rightarrow> 0) \<and>
         (\<exists>s. v = Integer s \<and> config w1 ''$RandomState'' = Some s) \<and> out w1 = out w"
proof (cases "RandomEnv_enter L w")
  case (Inl e)
  with assms show ?thesis by (simp add: RandomState_apply_def with_RandomEnv_def)
next
  case (Inr u)
  show ?thesis
  proof (cases "get_random_state L u")
    case (Inl e)
    with Inr assms show ?thesis
      by (simp add: RandomState_apply_def with_RandomEnv_def RandomEnv_exit_def)
  next
    case s: (Inr s)
    have ex: "RandomEnv_exit L u = Inr (set_config_value ''$RandomState'' s u)"
      using s by (simp add: RandomEnv_exit_def)
    from Inr s ex assms have v: "v = Integer s" and w1: "w1 = set_config_value ''$RandomState'' s u"
      by (simp_all add: RandomState_apply_def with_RandomEnv_def)
    have "get_random_state L w1 = get_random_state L u"
      by (simp add: w1 get_random_state_def set_config_value_def)
    with v w1 s RandomEnv_enter_frame [OF Inr] show ?thesis
      by (simp add: set_config_value_def)
  qed
qed

lemma RandomState_apply_again:
  assumes s: "get_random_state L w = Inr s"
    and cfg: "config w ''$RandomState'' = Some s"
    and loads: "pickle_loads L (pickle_dumps L (gen w)) = Some (gen w)"
    and first: "pickle_dumps L (gen w) = b # bs"
    and high: "16 \<le> unat b"
  shows "RandomState_apply L w = (Inr (Some (Integer s)), w)"
proof -
  from decode_encode [OF loads first high] s
  have "set_random_state L (Some s) w = Inr (w\<lparr>gen := gen w\<rparr>)" by auto
  then have enter: "RandomEnv_enter L w = Inr w"
    by (simp add: RandomEnv_enter_def get_config_value_def cfg)
  have "(config w)(''$RandomState'' \<mapsto> s) = config w"
    using cfg by (simp add: fun_upd_idem)
  then have "RandomEnv_exit L w = Inr w"
    using s by (simp add: RandomEnv_exit_def set_config_value_def)
  with enter s show ?thesis
    by (simp add: RandomState_apply_def with_RandomEnv_def)
qed

text \<open>
  C9. An assignment \<^verbatim>\<open>$RandomState = rhs\<close> issues the message \<^verbatim>\<open>rndst\<close> ("It is
  not possible to change the random state."), returns \<open>rhs\<close> and changes neither the
  persisted state nor the generator: \<^verbatim>\<open>$RandomState\<close> read immediately before the
  attempt (\<open>v\<close>) and immediately after it has the same value.
\<close>

theorem RandomState_assignment_rejected:
  assumes read: "RandomState_apply L w = (Inr (Some v), w1)"
    and loads: "pickle_loads L (pickle_dumps L (gen w1)) = Some (gen w1)"
    and first: "pickle_dumps L (gen w1) = b # bs"
    and high: "16 \<le> unat b"
  shows "fst (assign_RandomState rhs w1) = Inr (Some rhs) \<and>
         out (snd (assign_RandomState rhs w1)) = out w1 @ [(''$RandomState'', ''rndst'', [])] \<and>
         RandomState_messages ''rndst'' = Some ''It is not possible to change the random state.'' \<and>
         config (snd (assign_RandomState rhs w1)) = config w1 \<and>
         gen (snd (assign_RandomState rhs w1)) = gen w1 \<and>
         fst (RandomState_apply L (snd (assign_RandomState rhs w1))) = Inr (Some v) \<and>
         config (snd (RandomState_apply L (snd (assign_RandomState rhs w1)))) = config w1"
proof -
  let ?w2 = "snd (assign_RandomState rhs w1)"
  have w2: "?w2 = w1\<lparr>out := out w1 @ [(''$RandomState'', ''rndst'', [])]\<rparr>"
    by (simp add: assign_RandomState_def evaluation_message_def)
  from RandomState_apply_value [OF read] obtain s where
    v: "v = Integer s" and cfg: "config w1 ''$RandomState'' = Some s"
    and s: "get_random_state L w1 = Inr s" by auto
  have s2: "get_random_state L ?w2 = Inr s"
    using s by (simp add: w2 get_random_state_def)
  have again: "RandomState_apply L ?w2 = (Inr (Some (Integer s)), ?w2)"
    by (rule RandomState_apply_again [OF s2, where b = b and bs = bs])
      (use cfg loads first high in \<open>simp_all add: w2\<close>)
  show ?thesis
    unfolding again
    by (simp add: v assign_RandomState_def evaluation_message_def RandomState_messages_def)
qed

theorem RandomState_assignment_rejected_witness:
  "RandomState_apply demo_libs (demo_world (Some 32775) 0) = (Inr (Some (Integer 32775)), demo_world (Some 32775) 7) \<and>
   pickle_loads demo_libs (pickle_dumps demo_libs (gen (demo_world (Some 32775) 7))) = Some (gen (demo_world (Some 32775) 7)) \<and>
   pickle_dumps demo_libs (gen (demo_world (Some 32775) 7)) = [128, 7] \<and>
   16 \<le> unat (128 :: byte) \<and>
   fst (assign_RandomState (Integer 42) (demo_world (Some 32775) 7)) = Inr (Some (Integer 42)) \<and>
   fst (RandomState_apply demo_libs (snd (assign_RandomState (Integer 42) (demo_world (Some 32775) 7)))) =
     Inr (Some (Integer 32775)) \<and>
   config (snd (RandomState_apply demo_libs (snd (assign_RandomState (Integer 42) (demo_world (Some 32775) 7))))) =
     config (demo_world (Some 32775) 7)"
proof -
  have r: "RandomState_apply demo_libs (demo_world (Some 32775) 0) =
             (Inr (Some (Integer 32775)), demo_world (Some 32775) 7)"
    using demo_enter [of 7 0] demo_exit [of 7 "Some 32775"] demo_get_random_state [of "demo_world (Some 32775) 7"]
    by (simp add: RandomState_apply_def with_RandomEnv_def demo_world_def)
  have a: "pickle_loads demo_libs (pickle_dumps demo_libs (gen (demo_world (Some 32775) 7))) =
             Some (gen (demo_world (Some 32775) 7))"
    by (simp add: demo_libs_def demo_world_def)
  have b: "pickle_dumps demo_libs (gen (demo_world (Some 32775) 7)) = [128, 7]"
    by (simp add: demo_libs_def demo_world_def)
  have c: "16 \<le> unat (128 :: byte)" by simp
  from RandomState_assignment_rejected [OF r a b c, of "Integer 42"] r a b c
  show ?thesis by simp
qed

section \<open>Selections\<close>



lemma draw_many_length: "length (fst (draw_many step n g)) = n"
  by (induction n arbitrary: g) (simp_all add: case_prod_unfold)

lemma draw_many_all:
  "(\<And>g. P (fst (step g))) \<Longrightarrow> list_all P (fst (draw_many step n g))"
  by (induction n arbitrary: g) (simp_all add: case_prod_unfold)

lemma index_below_lt: "n \<noteq> 0 \<Longrightarrow> fst (index_below L n p g) < n"
  by (simp add: index_below_def split: prod.splits option.splits)

lemma np_size_dims: "np_size (PyList (map (\<lambda>d. PyInt (int d)) dims)) = Inr dims"
  by (induction dims) (auto split: sum.splits)



lemma choice_with_replacement:
  assumes "n \<noteq> 0"
  shows "\<exists>arr g1. numpy_random_choice L n (PyList (map (\<lambda>d. PyInt (int d)) dims)) True None g = Inr (arr, g1) \<and>
           shape arr = dims \<and> length (data arr) = prod_list dims \<and>
           list_all (\<lambda>i. i < n) (data arr)"
proof -
  obtain xs g1 where dm: "draw_many (index_below L n None) (prod_list dims) g = (xs, g1)"
    by (cases "draw_many (index_below L n None) (prod_list dims) g")
  have "list_all (\<lambda>i. i < n) (fst (draw_many (index_below L n None) (prod_list dims) g))"
    by (rule draw_many_all) (rule index_below_lt [OF assms])
  moreover have "length (fst (draw_many (index_below L n None) (prod_list dims) g)) = prod_list dims"
    by (rule draw_many_length)
  ultimately show ?thesis using dm assms
    by (simp add: numpy_random_choice_def np_size_dims del: np_size.simps)
qed

text \<open>A session that is entered runs its body and persists the state the body left.\<close>

lemma with_RandomEnv_run:
  assumes "RandomEnv_enter L w = Inr w1" and "body w1 = (r, w2)" and "pickle_dumps L (gen w2) \<noteq> []"
  shows "\<exists>s. get_random_state L w2 = Inr s \<and>
             with_RandomEnv L body w = (r, w2\<lparr>config := (config w2)(''$RandomState'' \<mapsto> s)\<rparr>)"
proof -
  from get_random_state_total [OF assms(3)] obtain s where s: "get_random_state L w2 = Inr s"
    by blast
  then have "RandomEnv_exit L w2 = Inr (w2\<lparr>config := (config w2)(''$RandomState'' \<mapsto> s)\<rparr>)"
    by (simp add: RandomEnv_exit_def set_config_value_def)
  with assms(1,2) s show ?thesis
    by (simp add: with_RandomEnv_def)
qed

lemma demo_blob: "\<forall>g. pickle_dumps demo_libs g \<noteq> []"
  by (simp add: demo_libs_def)















section \<open>Properties of the shape builder\<close>

lemma upt_2: "[0..<2] = [0, 1]"
  by (simp add: upt_rec numeral_2_eq_2)

lemma from_numpy_rows:
  "shape a = n # ns \<Longrightarrow> Suc (length ns) = d \<Longrightarrow>
   from_numpy a new_element d =
     (case sequence_err (map (\<lambda>k. new_element (nd_sub a k)) [0..<n]) of
        Inl e \<Rightarrow> Inl e
      | Inr ls \<Rightarrow> Inr (Expression ''System`List'' ls))"
  by (subst from_numpy.simps) simp

lemma from_numpy_deeper:
  "shape a = n # ns \<Longrightarrow> Suc (length ns) \<noteq> d \<Longrightarrow>
   from_numpy a new_element d =
     (case sequence_err (map (\<lambda>k. from_numpy (nd_sub a k) new_element d) [0..<n]) of
        Inl e \<Rightarrow> Inl e
      | Inr ls \<Rightarrow> Inr (Expression ''System`List'' ls))"
  by (subst from_numpy.simps) simp

lemma sequence_err_cong:
  "(\<And>x. x \<in> set xs \<Longrightarrow> f x = Inr (h x)) \<Longrightarrow> sequence_err (map f xs) = Inr (map h xs)"
  by (induction xs) auto

text \<open>Rows of one length laid out one after the other.\<close>

lemma drop_concat_rows:
  "\<forall>r \<in> set rs. length r = q \<Longrightarrow> drop (j * q) (concat rs) = concat (drop j rs)"
proof (induction rs arbitrary: j)
  case Nil
  then show ?case by simp
next
  case (Cons r rs)
  then show ?case by (cases j) simp_all
qed

lemma take_concat_rows:
  "\<forall>r \<in> set rs. length r = q \<Longrightarrow> take (j * q) (concat rs) = concat (take j rs)"
proof (induction rs arbitrary: j)
  case Nil
  then show ?case by simp
next
  case (Cons r rs)
  then show ?case by (cases j) simp_all
qed

lemma block_concat_rows:
  assumes "\<forall>r \<in> set rs. length r = q"
  shows "take (p * q) (drop (k * p * q) (concat rs)) = concat (take p (drop (k * p) rs))"
proof -
  have "drop (k * p * q) (concat rs) = concat (drop (k * p) rs)"
    using drop_concat_rows [OF assms, of "k * p"] by simp
  moreover have "\<forall>r \<in> set (drop (k * p) rs). length r = q"
    using assms by (meson in_set_dropD)
  ultimately show ?thesis
    using take_concat_rows [of "drop (k * p) rs" q p] by simp
qed

lemma block_length:
  assumes "k < n" and "length zs = n * p"
  shows "length (take p (drop (k * p) zs)) = p"
proof -
  from assms(1) have "Suc k \<le> n" by simp
  then have "Suc k * p \<le> n * p" by (rule mult_le_mono1)
  then show ?thesis using assms(2) by simp
qed

lemma nth_block: "k < length zs \<Longrightarrow> take (Suc 0) (drop k zs) = [zs ! k]"
  by (metis Cons_nth_drop_Suc take_Suc_Cons take_0)

text \<open>
  The shape builder on an array whose last axes \<open>tail\<close> are those of the rows handed
  to the leaf constructor, called with \<open>d = len(tail) + 1\<close>: the nested list of the
  leading shape \<open>sh\<close> over the leaves of the rows.
\<close>

lemma from_numpy_nest:
  assumes "sh \<noteq> []" and "length rs = prod_list sh"
    and "\<forall>r \<in> set rs. length r = prod_list tail"
    and "\<forall>r \<in> set rs. new_element \<lparr>shape = tail, data = r\<rparr> = Inr (f r)"
  shows "from_numpy \<lparr>shape = sh @ tail, data = concat rs\<rparr> new_element (Suc (length tail)) =
           Inr (nest sh (map f rs))"
  using assms
proof (induction sh arbitrary: rs)
  case Nil
  then show ?case by simp
next
  case (Cons n ns)
  let ?a = "\<lparr>shape = (n # ns) @ tail, data = concat rs\<rparr>"
  let ?p = "prod_list ns"
  let ?q = "prod_list tail"
  have sub: "nd_sub ?a k = \<lparr>shape = ns @ tail, data = concat (take ?p (drop (k * ?p) rs))\<rparr>" for k
    using block_concat_rows [OF Cons.prems(3), of ?p k]
    by (simp add: nd_sub_def mult.assoc)
  show ?case
  proof (cases "ns = []")
    case True
    have leaf: "new_element (nd_sub ?a k) = Inr (f (rs ! k))" if "k \<in> set [0..<n]" for k
    proof -
      from that Cons.prems(2) True have k: "k < length rs" by simp
      then have "nd_sub ?a k = \<lparr>shape = tail, data = rs ! k\<rparr>"
        unfolding sub using True by (simp add: nth_block)
      with Cons.prems(4) k show ?thesis by simp
    qed
    have "sequence_err (map (\<lambda>k. new_element (nd_sub ?a k)) [0..<n]) = Inr (map (\<lambda>k. f (rs ! k)) [0..<n])"
      using leaf by (rule sequence_err_cong)
    moreover have "map (\<lambda>k. nest [] (take (Suc 0) (drop k (map f rs)))) [0..<n] = map (\<lambda>k. f (rs ! k)) [0..<n]"
      using Cons.prems(2) True by (simp add: nth_block)
    ultimately show ?thesis
      using True by (simp add: from_numpy_rows [where n = n and ns = tail])
  next
    case False
    have row: "from_numpy (nd_sub ?a k) new_element (Suc (length tail)) =
                 Inr (nest ns (take ?p (drop (k * ?p) (map f rs))))" if "k \<in> set [0..<n]" for k
    proof -
      from that have k: "k < n" by simp
      from Cons.prems(2) have "length rs = n * ?p" by simp
      then have l: "length (take ?p (drop (k * ?p) rs)) = ?p"
        by (rule block_length [OF k])
      have in_rs: "set (take ?p (drop (k * ?p) rs)) \<subseteq> set rs"
        by (meson in_set_takeD in_set_dropD subsetI)
      have "from_numpy \<lparr>shape = ns @ tail, data = concat (take ?p (drop (k * ?p) rs))\<rparr> new_element
              (Suc (length tail)) = Inr (nest ns (map f (take ?p (drop (k * ?p) rs))))"
        using Cons.IH [OF False l] Cons.prems(3,4) in_rs by blast
      then show ?thesis
        unfolding sub by (simp add: take_map drop_map)
    qed
    have "sequence_err (map (\<lambda>k. from_numpy (nd_sub ?a k) new_element (Suc (length tail))) [0..<n]) =
            Inr (map (\<lambda>k. nest ns (take ?p (drop (k * ?p) (map f rs)))) [0..<n])"
      using row by (rule sequence_err_cong)
    moreover have "Suc (length (ns @ tail)) \<noteq> Suc (length tail)" using False by simp
    ultimately show ?thesis
      by (simp add: from_numpy_deeper [where n = n and ns = "ns @ tail"])
  qed
qed

lemma nested_list_nest:
  "length ls = prod_list sh \<Longrightarrow> list_all leaf ls \<Longrightarrow> nested_list leaf sh (nest sh ls)"
proof (induction sh arbitrary: ls)
  case Nil
  then show ?case by (cases ls) simp_all
next
  case (Cons n ns)
  have "nested_list leaf ns (nest ns (take (prod_list ns) (drop (k * prod_list ns) ls)))" if "k < n" for k
  proof (rule Cons.IH)
    from Cons.prems(1) have "length ls = n * prod_list ns" by simp
    then show "length (take (prod_list ns) (drop (k * prod_list ns) ls)) = prod_list ns"
      by (rule block_length [OF that])
    have "set (take (prod_list ns) (drop (k * prod_list ns) ls)) \<subseteq> set ls"
      by (meson in_set_takeD in_set_dropD subsetI)
    with Cons.prems(2) show "list_all leaf (take (prod_list ns) (drop (k * prod_list ns) ls))"
      unfolding list_all_iff by blast
  qed
  then have "list_all (nested_list leaf ns)
               (map (\<lambda>k. nest ns (take (prod_list ns) (drop (k * prod_list ns) ls))) [0..<n])"
    unfolding list_all_iff by auto
  then show ?case by simp
qed

lemma draw_many_pos:
  "0 < n \<Longrightarrow>
   draw_many step n g =
     (case step g of (x, g1) \<Rightarrow> (case draw_many step (n - 1) g1 of (xs, g2) \<Rightarrow> (x # xs, g2)))"
  by (cases n) simp_all

lemma numpy_stack_interleave:
  "numpy_stack \<lparr>shape = sh, data = xs\<rparr> \<lparr>shape = sh, data = ys\<rparr> =
     Inr \<lparr>shape = sh @ [2], data = interleave xs ys\<rparr>"
  by (simp add: numpy_stack_def interleave_def)

lemma randreal_dims:
  "RandomEnv_randreal L lo hi (Some (PyList (map (\<lambda>d. PyInt (int d)) dims))) w =
     Inr (\<lparr>shape = dims, data = fst (draw_many (next_real L lo hi) (prod_list dims) (gen w))\<rparr>,
          w\<lparr>gen := snd (draw_many (next_real L lo hi) (prod_list dims) (gen w))\<rparr>)"
  by (simp add: RandomEnv_randreal_def numpy_random_uniform_def np_size_dims case_prod_unfold
      del: np_size.simps)

lemma randint_dims:
  "lo \<le> hi \<Longrightarrow>
   RandomEnv_randint L lo hi (Some (PyList (map (\<lambda>d. PyInt (int d)) dims))) w =
     Inr (\<lparr>shape = dims, data = fst (draw_many (next_int L lo hi) (prod_list dims) (gen w))\<rparr>,
          w\<lparr>gen := snd (draw_many (next_int L lo hi) (prod_list dims) (gen w))\<rparr>)"
  by (simp add: RandomEnv_randint_def numpy_random_random_integers_def np_size_dims case_prod_unfold
      del: np_size.simps)

lemma to_python_dims:
  "to_python (Expression ''System`List'' (map (\<lambda>d. Integer (int d)) dims)) =
     PyList (map (\<lambda>d. PyInt (int d)) dims)"
  by (simp add: comp_def)

lemma Complex_new_real: "real_endpoint z = Some a \<Longrightarrow> Complex_new z im = Inr (Complex_expr a im)"
  by (cases z) simp_all

text \<open>
  The stacked array of \<^verbatim>\<open>RandomComplex\<close> through the shape builder with \<open>d = 2\<close>:
  the nested list of the requested shape whose leaves pair the two arrays item by item.
\<close>

lemma from_numpy_stacked:
  assumes "sh \<noteq> []" and "length xs = prod_list sh" and "length ys = prod_list sh"
  shows "from_numpy \<lparr>shape = sh @ [2], data = interleave xs ys\<rparr> Complex_leaf 2 =
           Inr (nest sh (map2 Complex_expr xs ys))"
proof -
  let ?rs = "map2 (\<lambda>x y. [x, y]) xs ys"
  let ?f = "\<lambda>r. Complex_expr (r ! 0) (r ! 1)"
  have main: "from_numpy \<lparr>shape = sh @ [2], data = concat ?rs\<rparr> Complex_leaf (Suc (length [2 :: nat])) =
          Inr (nest sh (map ?f ?rs))"
  proof (rule from_numpy_nest [OF assms(1)])
    show "length ?rs = prod_list sh" using assms(2,3) by simp
    show "\<forall>r \<in> set ?rs. length r = prod_list [2]" by auto
    show "\<forall>r \<in> set ?rs. Complex_leaf \<lparr>shape = [2], data = r\<rparr> = Inr (?f r)"
      by (auto simp: Complex_leaf_def)
  qed
  have m: "map ?f ?rs = map2 Complex_expr xs ys" by auto
  have d: "Suc (length [2 :: nat]) = 2" by simp
  from main show ?thesis unfolding m d interleave_def .
qed

text \<open>An array of scalars through the shape builder with \<open>d = 1\<close>.\<close>

lemma from_numpy_scalars:
  assumes "sh \<noteq> []" and "length zs = prod_list sh"
    and "\<And>z. leaf \<lparr>shape = [], data = [z]\<rparr> = Inr (c z)"
  shows "from_numpy \<lparr>shape = sh, data = zs\<rparr> leaf 1 = Inr (nest sh (map c zs))"
proof -
  let ?rs = "map (\<lambda>z. [z]) zs"
  let ?f = "\<lambda>r. c (hd r)"
  have "from_numpy \<lparr>shape = sh @ [], data = concat ?rs\<rparr> leaf (Suc (length ([] :: nat list))) =
          Inr (nest sh (map ?f ?rs))"
  proof (rule from_numpy_nest [OF assms(1)])
    show "length ?rs = prod_list sh" using assms(2) by simp
    show "\<forall>r \<in> set ?rs. length r = prod_list []" by auto
    show "\<forall>r \<in> set ?rs. leaf \<lparr>shape = [], data = r\<rparr> = Inr (?f r)"
      using assms(3) by auto
  qed
  moreover have "map ?f ?rs = map c zs" by (simp add: comp_def)
  moreover have "concat ?rs = zs" by (induction zs) simp_all
  ultimately show ?thesis by (simp only: append_Nil2 list.size One_nat_def)
qed

lemma nonneg_dims: "list_all is_nonneg_int (map (\<lambda>d. PyInt (int d)) dims)"
  by (simp add: list_all_iff)

text \<open>
  C8 as stated fails: for the shape \<open>[2, 2]\<close> \<^verbatim>\<open>RandomComplex.apply_list\<close> calls the
  shape builder with \<open>d = 2\<close>, not \<open>len(shape) + 1 = 3\<close>, and
  \<^verbatim>\<open>RandomInteger.apply_list\<close> with \<open>d = 1\<close>, not \<open>len(shape) = 2\<close>; both return
  a nested list of depth 2. With the depth parameter of the claim the builder hands a
  whole array to the leaf constructor, which raises.
\<close>

theorem RandomComplex_depth_parameter:
  "fst (RandomComplex_apply_list demo_libs (Integer 0) (Integer 256)
          (Expression ''System`List'' [Integer 2, Integer 2]) (demo_world (Some 32768) 0)) =
     Inr (Some (Expression ''System`List''
         [Expression ''System`List'' [Complex_expr 0 0, Complex_expr 1 0],
          Expression ''System`List'' [Complex_expr 2 0, Complex_expr 3 0]])) \<and>
   from_numpy \<lparr>shape = [2, 2, 2], data = [0, 0, 1, 0, 2, 0, 3, 0 :: real]\<rparr> Complex_leaf 2 =
     Inr (Expression ''System`List''
         [Expression ''System`List'' [Complex_expr 0 0, Complex_expr 1 0],
          Expression ''System`List'' [Complex_expr 2 0, Complex_expr 3 0]]) \<and>
   from_numpy \<lparr>shape = [2, 2, 2], data = [0, 0, 1, 0, 2, 0, 3, 0 :: real]\<rparr> Complex_leaf
       (length [2 :: nat, 2] + 1) = Inl TypeError \<and>
   fst (RandomInteger_apply_list demo_libs (Integer 0) (Integer 255)
          (Expression ''System`List'' [Integer 2, Integer 2]) (demo_world (Some 32768) 0)) =
     Inr (Some (Expression ''System`List''
         [Expression ''System`List'' [Integer 0, Integer 1],
          Expression ''System`List'' [Integer 2, Integer 3]])) \<and>
   from_numpy \<lparr>shape = [2, 2], data = [0, 1, 2, 3 :: int]\<rparr> Integer_leaf 1 =
     Inr (Expression ''System`List''
         [Expression ''System`List'' [Integer 0, Integer 1],
          Expression ''System`List'' [Integer 2, Integer 3]]) \<and>
   from_numpy \<lparr>shape = [2, 2], data = [0, 1, 2, 3 :: int]\<rparr> Integer_leaf (length [2 :: nat, 2]) =
     Inl TypeError"
proof (intro conjI)
  let ?e = "Expression ''System`List''
         [Expression ''System`List'' [Complex_expr 0 0, Complex_expr 1 0],
          Expression ''System`List'' [Complex_expr 2 0, Complex_expr 3 0]]"
  let ?a = "\<lparr>shape = [2, 2, 2], data = [0, 0, 1, 0, 2, 0, 3, 0 :: real]\<rparr>"
  let ?i = "Expression ''System`List''
         [Expression ''System`List'' [Integer 0, Integer 1],
          Expression ''System`List'' [Integer 2, Integer 3]]"
  let ?b = "\<lparr>shape = [2, 2], data = [0, 1, 2, 3 :: int]\<rparr>"
  show b2: "from_numpy ?a Complex_leaf 2 = Inr ?e"
    by (simp add: from_numpy_rows from_numpy_deeper nd_sub_def upt_2 Complex_leaf_def)
  show "from_numpy ?a Complex_leaf (length [2 :: nat, 2] + 1) = Inl TypeError"
    by (simp add: from_numpy_rows from_numpy_deeper nd_sub_def upt_2 Complex_leaf_def)
  show b1: "from_numpy ?b Integer_leaf 1 = Inr ?i"
    by (simp add: from_numpy_rows from_numpy_deeper nd_sub_def upt_2 Integer_leaf_def)
  show "from_numpy ?b Integer_leaf (length [2 :: nat, 2]) = Inl TypeError"
    by (simp add: from_numpy_rows from_numpy_deeper nd_sub_def upt_2 Integer_leaf_def)
  have re: "RandomEnv_randreal demo_libs 0 256 (Some (PyList [PyInt 2, PyInt 2])) (demo_world (Some 32768) 0) =
          Inr (\<lparr>shape = [2, 2], data = [0, 1, 2, 3]\<rparr>, demo_world (Some 32768) 4)"
    by (simp add: RandomEnv_randreal_def numpy_random_uniform_def draw_many_pos demo_libs_def demo_world_def)
  have im: "RandomEnv_randreal demo_libs 0 0 (Some (PyList [PyInt 2, PyInt 2])) (demo_world (Some 32768) 4) =
          Inr (\<lparr>shape = [2, 2], data = [0, 0, 0, 0]\<rparr>, demo_world (Some 32768) 8)"
    by (simp add: RandomEnv_randreal_def numpy_random_uniform_def draw_many_pos demo_libs_def demo_world_def)
  have st: "numpy_stack \<lparr>shape = [2, 2], data = [0, 1, 2, 3 :: real]\<rparr> \<lparr>shape = [2, 2], data = [0, 0, 0, 0]\<rparr> = Inr ?a"
    by (simp add: numpy_stack_def)
  show "fst (RandomComplex_apply_list demo_libs (Integer 0) (Integer 256)
          (Expression ''System`List'' [Integer 2, Integer 2]) (demo_world (Some 32768) 0)) = Inr (Some ?e)"
    using demo_enter [of 0 0] demo_exit [of 8 "Some 32768"]
    by (simp add: RandomComplex_apply_list_def with_RandomEnv_def re im st b2)
  have ri: "RandomEnv_randint demo_libs 0 255 (Some (PyList [PyInt 2, PyInt 2])) (demo_world (Some 32768) 0) =
          Inr (?b, demo_world (Some 32768) 4)"
    by (simp add: RandomEnv_randint_def numpy_random_random_integers_def draw_many_pos demo_libs_def
        demo_world_def)
  show "fst (RandomInteger_apply_list demo_libs (Integer 0) (Integer 255)
          (Expression ''System`List'' [Integer 2, Integer 2]) (demo_world (Some 32768) 0)) = Inr (Some ?i)"
    using demo_enter [of 0 0] demo_exit [of 4 "Some 32768"]
    by (simp add: RandomInteger_apply_list_def with_RandomEnv_def ri b1 [unfolded One_nat_def])
qed

text \<open>
  C8, amended. \<^verbatim>\<open>RandomComplex\<close> draws a real-part array and an imaginary-part
  array of the requested shape, stacks them along a new last axis and calls the shape
  builder with the depth parameter \<open>d = 2\<close>, whatever the shape is; the other
  operations call it with \<open>d = 1\<close>. For real-number corners and a non-empty shape
  \<open>[n1, ..., nk]\<close>, in a session that is entered, the result of \<^verbatim>\<open>RandomComplex\<close>
  is the nested list of depth \<open>k\<close> and that shape whose leaves are complex values,
  the items of the two drawn arrays paired position by position; the results of
  \<^verbatim>\<open>RandomReal\<close> and \<^verbatim>\<open>RandomInteger\<close> are the nested lists of that shape over
  the items of the one drawn array.
\<close>

theorem RandomComplex_nested:
  assumes dims: "dims \<noteq> []"
    and enter: "RandomEnv_enter L w = Inr w1"
    and blob: "\<forall>g. pickle_dumps L g \<noteq> []"
    and zmin: "real_endpoint zmin = Some a"
    and zmax: "real_endpoint zmax = Some c"
  shows "let k = prod_list dims;
             ns = Expression ''System`List'' (map (\<lambda>d. Integer (int d)) dims);
             xs = fst (draw_many (next_real L a c) k (gen w1));
             g1 = snd (draw_many (next_real L a c) k (gen w1));
             ys = fst (draw_many (next_real L 0 0) k g1);
             g2 = snd (draw_many (next_real L 0 0) k g1)
         in RandomEnv_randreal L a c (Some (to_python ns)) w1 =
              Inr (\<lparr>shape = dims, data = xs\<rparr>, w1\<lparr>gen := g1\<rparr>) \<and>
            RandomEnv_randreal L 0 0 (Some (to_python ns)) (w1\<lparr>gen := g1\<rparr>) =
              Inr (\<lparr>shape = dims, data = ys\<rparr>, w1\<lparr>gen := g2\<rparr>) \<and>
            numpy_stack \<lparr>shape = dims, data = xs\<rparr> \<lparr>shape = dims, data = ys\<rparr> =
              Inr \<lparr>shape = dims @ [2], data = interleave xs ys\<rparr> \<and>
            from_numpy \<lparr>shape = dims @ [2], data = interleave xs ys\<rparr> Complex_leaf 2 =
              Inr (nest dims (map2 Complex_expr xs ys)) \<and>
            fst (RandomComplex_apply_list L zmin zmax ns w) =
              Inr (Some (nest dims (map2 Complex_expr xs ys))) \<and>
            nested_list is_complex dims (nest dims (map2 Complex_expr xs ys)) \<and>
            fst (RandomReal_apply_list L zmin zmax ns w) = Inr (Some (nest dims (map Real_expr xs))) \<and>
            (\<forall>lo hi. lo \<le> hi \<longrightarrow>
               fst (RandomInteger_apply_list L (Integer lo) (Integer hi) ns w) =
                 Inr (Some (nest dims (map Integer (fst (draw_many (next_int L lo hi) k (gen w1)))))))"
proof -
  let ?py = "PyList (map (\<lambda>d. PyInt (int d)) dims)"
  let ?ns = "Expression ''System`List'' (map (\<lambda>d. Integer (int d)) dims)"
  let ?k = "prod_list dims"
  let ?xs = "fst (draw_many (next_real L a c) ?k (gen w1))"
  let ?g1 = "snd (draw_many (next_real L a c) ?k (gen w1))"
  let ?ys = "fst (draw_many (next_real L 0 0) ?k ?g1)"
  let ?g2 = "snd (draw_many (next_real L 0 0) ?k ?g1)"
  let ?e = "nest dims (map2 Complex_expr ?xs ?ys)"
  have py: "to_python ?ns = ?py" by (rule to_python_dims)
  have 1: "RandomEnv_randreal L a c (Some (to_python ?ns)) w1 =
             Inr (\<lparr>shape = dims, data = ?xs\<rparr>, w1\<lparr>gen := ?g1\<rparr>)"
    unfolding py by (rule randreal_dims)
  have 2: "RandomEnv_randreal L 0 0 (Some (to_python ?ns)) (w1\<lparr>gen := ?g1\<rparr>) =
             Inr (\<lparr>shape = dims, data = ?ys\<rparr>, w1\<lparr>gen := ?g2\<rparr>)"
    unfolding py by (simp add: randreal_dims)
  have 3: "numpy_stack \<lparr>shape = dims, data = ?xs\<rparr> \<lparr>shape = dims, data = ?ys\<rparr> =
             Inr \<lparr>shape = dims @ [2], data = interleave ?xs ?ys\<rparr>"
    by (rule numpy_stack_interleave)
  have 4: "from_numpy \<lparr>shape = dims @ [2], data = interleave ?xs ?ys\<rparr> Complex_leaf 2 = Inr ?e"
    by (rule from_numpy_stacked [OF dims]) (simp_all add: draw_many_length)
  have 6: "nested_list is_complex dims ?e"
    by (rule nested_list_nest) (auto simp: draw_many_length list_all_iff dest: set_zip_leftD)
  let ?body = "\<lambda>w1. case RandomEnv_randreal L a c (Some ?py) w1 of
                 Inl e \<Rightarrow> (Inl e, w1)
               | Inr (re_part, w2) \<Rightarrow>
                   (case RandomEnv_randreal L 0 0 (Some ?py) w2 of
                      Inl e \<Rightarrow> (Inl e, w2)
                    | Inr (im_part, w3) \<Rightarrow>
                        (case numpy_stack re_part im_part of
                           Inl e \<Rightarrow> (Inl e, w3)
                         | Inr stacked \<Rightarrow>
                             (case from_numpy stacked Complex_leaf 2 of
                                Inl e \<Rightarrow> (Inl e, w3)
                              | Inr r \<Rightarrow> (Inr (Some r), w3))))"
  have run: "RandomComplex_apply_list L zmin zmax ?ns w = with_RandomEnv L ?body w"
    by (simp add: RandomComplex_apply_list_def Complex_new_real [OF zmin] Complex_new_real [OF zmax]
        list_all_iff comp_def Let_def)
  have body: "?body w1 = (Inr (Some ?e), w1\<lparr>gen := ?g2\<rparr>)"
    using 1 2 3 4 unfolding py by simp
  from with_RandomEnv_run [of L w w1 ?body "Inr (Some ?e)" "w1\<lparr>gen := ?g2\<rparr>"] enter body blob
  have "fst (with_RandomEnv L ?body w) = Inr (Some ?e)" by auto
  with run have 5: "fst (RandomComplex_apply_list L zmin zmax ?ns w) = Inr (Some ?e)" by simp
  let ?rbody = "\<lambda>w1. case RandomEnv_randreal L a c (Some ?py) w1 of
                  Inl e \<Rightarrow> (Inl e, w1)
                | Inr (arr, w2) \<Rightarrow>
                    (case from_numpy arr Real_leaf 1 of
                       Inl e \<Rightarrow> (Inl e, w2)
                     | Inr r \<Rightarrow> (Inr (Some r), w2))"
  have rrun: "RandomReal_apply_list L zmin zmax ?ns w = with_RandomEnv L ?rbody w"
    by (simp add: RandomReal_apply_list_def zmin zmax nonneg_dims comp_def Let_def)
  have rleaf: "from_numpy \<lparr>shape = dims, data = ?xs\<rparr> Real_leaf 1 = Inr (nest dims (map Real_expr ?xs))"
    by (rule from_numpy_scalars [OF dims]) (simp_all add: draw_many_length Real_leaf_def)
  have rbody: "?rbody w1 = (Inr (Some (nest dims (map Real_expr ?xs))), w1\<lparr>gen := ?g1\<rparr>)"
    using 1 rleaf unfolding py by simp
  from with_RandomEnv_run [of L w w1 ?rbody "Inr (Some (nest dims (map Real_expr ?xs)))" "w1\<lparr>gen := ?g1\<rparr>"]
    enter rbody blob
  have "fst (with_RandomEnv L ?rbody w) = Inr (Some (nest dims (map Real_expr ?xs)))" by auto
  with rrun have 7: "fst (RandomReal_apply_list L zmin zmax ?ns w) = Inr (Some (nest dims (map Real_expr ?xs)))"
    by simp
  have 8: "fst (RandomInteger_apply_list L (Integer lo) (Integer hi) ?ns w) =
             Inr (Some (nest dims (map Integer (fst (draw_many (next_int L lo hi) ?k (gen w1))))))"
    if le: "lo \<le> hi" for lo hi
  proof -
    let ?zs = "fst (draw_many (next_int L lo hi) ?k (gen w1))"
    let ?g3 = "snd (draw_many (next_int L lo hi) ?k (gen w1))"
    let ?ibody = "\<lambda>w1. case RandomEnv_randint L lo hi (Some ?py) w1 of
                    Inl e \<Rightarrow> (Inl e, w1)
                  | Inr (arr, w2) \<Rightarrow>
                      (case from_numpy arr Integer_leaf 1 of
                         Inl e \<Rightarrow> (Inl e, w2)
                       | Inr r \<Rightarrow> (Inr (Some r), w2))"
    have irun: "RandomInteger_apply_list L (Integer lo) (Integer hi) ?ns w = with_RandomEnv L ?ibody w"
      by (simp add: RandomInteger_apply_list_def comp_def Let_def)
    have ileaf: "from_numpy \<lparr>shape = dims, data = ?zs\<rparr> Integer_leaf 1 = Inr (nest dims (map Integer ?zs))"
      by (rule from_numpy_scalars [OF dims]) (simp_all add: draw_many_length Integer_leaf_def)
    have ibody: "?ibody w1 = (Inr (Some (nest dims (map Integer ?zs))), w1\<lparr>gen := ?g3\<rparr>)"
      using randint_dims [OF le, of L dims w1] ileaf by simp
    from with_RandomEnv_run [of L w w1 ?ibody "Inr (Some (nest dims (map Integer ?zs)))" "w1\<lparr>gen := ?g3\<rparr>"]
      enter ibody blob
    have "fst (with_RandomEnv L ?ibody w) = Inr (Some (nest dims (map Integer ?zs)))" by auto
    with irun show ?thesis by simp
  qed
  from 1 2 3 4 5 6 7 8 show ?thesis
    unfolding Let_def by blast
qed

theorem RandomComplex_nested_witness:
  "[2 :: nat, 2] \<noteq> [] \<and>
   RandomEnv_enter demo_libs (demo_world (Some 32768) 0) = Inr (demo_world (Some 32768) 0) \<and>
   (\<forall>g. pickle_dumps demo_libs g \<noteq> []) \<and>
   real_endpoint (Integer 0) = Some 0 \<and>
   real_endpoint (Integer 256) = Some 256 \<and>
   from_numpy \<lparr>shape = [2, 2] @ [2], data = interleave [0, 1, 2, 3] [0, 0, 0, 0 :: real]\<rparr> Complex_leaf 2 =
     Inr (nest [2, 2] (map2 Complex_expr [0, 1, 2, 3] [0, 0, 0, 0])) \<and>
   fst (RandomComplex_apply_list demo_libs (Integer 0) (Integer 256)
          (Expression ''System`List'' (map (\<lambda>d. Integer (int d)) [2, 2])) (demo_world (Some 32768) 0)) =
     Inr (Some (nest [2, 2] (map2 Complex_expr [0, 1, 2, 3] [0, 0, 0, 0]))) \<and>
   nested_list is_complex [2, 2] (nest [2, 2] (map2 Complex_expr [0, 1, 2, 3] [0, 0, 0, 0])) \<and>
   fst (RandomReal_apply_list demo_libs (Integer 0) (Integer 256)
          (Expression ''System`List'' (map (\<lambda>d. Integer (int d)) [2, 2])) (demo_world (Some 32768) 0)) =
     Inr (Some (nest [2, 2] (map Real_expr [0, 1, 2, 3])))"
proof -
  have a: "[2 :: nat, 2] \<noteq> []" by simp
  have b: "RandomEnv_enter demo_libs (demo_world (Some 32768) 0) = Inr (demo_world (Some 32768) 0)"
    using demo_enter [of 0 0] by simp
  have c: "real_endpoint (Integer 0) = Some 0" by simp
  have d: "real_endpoint (Integer 256) = Some 256" by simp
  have xs: "draw_many (next_real demo_libs 0 256) (prod_list [2, 2]) (gen (demo_world (Some 32768) 0)) =
              ([0, 1, 2, 3], 4)"
    by (simp add: draw_many_pos demo_libs_def demo_world_def)
  have ys: "draw_many (next_real demo_libs 0 0) (prod_list [2, 2]) 4 = ([0, 0, 0, 0], 8)"
    by (simp add: draw_many_pos demo_libs_def)
  from RandomComplex_nested [OF a b demo_blob c d]
  have "from_numpy \<lparr>shape = [2, 2] @ [2], data = interleave [0, 1, 2, 3] [0, 0, 0, 0 :: real]\<rparr> Complex_leaf 2 =
     Inr (nest [2, 2] (map2 Complex_expr [0, 1, 2, 3] [0, 0, 0, 0])) \<and>
   fst (RandomComplex_apply_list demo_libs (Integer 0) (Integer 256)
          (Expression ''System`List'' (map (\<lambda>d. Integer (int d)) [2, 2])) (demo_world (Some 32768) 0)) =
     Inr (Some (nest [2, 2] (map2 Complex_expr [0, 1, 2, 3] [0, 0, 0, 0]))) \<and>
   nested_list is_complex [2, 2] (nest [2, 2] (map2 Complex_expr [0, 1, 2, 3] [0, 0, 0, 0])) \<and>
   fst (RandomReal_apply_list demo_libs (Integer 0) (Integer 256)
          (Expression ''System`List'' (map (\<lambda>d. Integer (int d)) [2, 2])) (demo_world (Some 32768) 0)) =
     Inr (Some (nest [2, 2] (map Real_expr [0, 1, 2, 3])))"
    unfolding Let_def xs fst_conv snd_conv ys by blast
  with a b demo_blob c d show ?thesis by blast
qed

section \<open>Reproducible draws after a valid seed\<close>

lemma get_random_state_gen: "gen u = gen v \<Longrightarrow> get_random_state L u = get_random_state L v"
  by (simp add: get_random_state_def)

lemma set_random_state_Some:
  "(\<exists>e. set_random_state L (Some i) w = Inl e \<and> set_random_state L (Some i) v = Inl e) \<or>
   (\<exists>g. set_random_state L (Some i) w = Inr (w\<lparr>gen := g\<rparr>) \<and>
        set_random_state L (Some i) v = Inr (v\<lparr>gen := g\<rparr>))"
  by (auto simp: set_random_state_def Let_def split: sum.splits option.splits)

lemma RandomEnv_exit_cases:
  "(\<exists>e. RandomEnv_exit L u = Inl e \<and> get_random_state L u = Inl e) \<or>
   (\<exists>s. RandomEnv_exit L u = Inr (u\<lparr>config := (config u)(''$RandomState'' \<mapsto> s)\<rparr>) \<and>
        get_random_state L u = Inr s)"
  by (auto simp: RandomEnv_exit_def set_config_value_def split: sum.splits)

text \<open>
  A session whose body reads nothing but the generator and leaves the configuration
  alone has one outcome on two evaluation states with the same persisted random state,
  and it persists the same state in both.
\<close>

lemma with_RandomEnv_related:
  assumes det: "\<And>u u'. gen u = gen u' \<Longrightarrow>
                  fst (body u) = fst (body u') \<and> gen (snd (body u)) = gen (snd (body u'))"
    and frame: "\<And>u. config (snd (body u)) = config u"
    and R: "same_persisted w v"
  shows "fst (with_RandomEnv L body w) = fst (with_RandomEnv L body v) \<and>
         same_persisted (snd (with_RandomEnv L body w)) (snd (with_RandomEnv L body v))"
proof -
  from R obtain i where i: "config w ''$RandomState'' = Some i" "config v ''$RandomState'' = Some i"
    by (auto simp: same_persisted_def split: option.splits)
  have ew: "RandomEnv_enter L w = set_random_state L (Some i) w"
    and ev: "RandomEnv_enter L v = set_random_state L (Some i) v"
    using i by (simp_all add: RandomEnv_enter_def get_config_value_def)
  from set_random_state_Some [of L i w v] show ?thesis
  proof (elim disjE exE conjE)
    fix e assume "set_random_state L (Some i) w = Inl e" "set_random_state L (Some i) v = Inl e"
    then show ?thesis using R by (simp add: with_RandomEnv_def ew ev)
  next
    fix g assume sw: "set_random_state L (Some i) w = Inr (w\<lparr>gen := g\<rparr>)"
      and sv: "set_random_state L (Some i) v = Inr (v\<lparr>gen := g\<rparr>)"
    obtain r w2 where bw: "body (w\<lparr>gen := g\<rparr>) = (r, w2)" by (cases "body (w\<lparr>gen := g\<rparr>)")
    obtain r' v2 where bv: "body (v\<lparr>gen := g\<rparr>) = (r', v2)" by (cases "body (v\<lparr>gen := g\<rparr>)")
    from det [of "w\<lparr>gen := g\<rparr>" "v\<lparr>gen := g\<rparr>"] bw bv have r: "r' = r" and g2: "gen w2 = gen v2"
      by simp_all
    from frame [of "w\<lparr>gen := g\<rparr>"] frame [of "v\<lparr>gen := g\<rparr>"] bw bv
    have cw: "config w2 = config w" and cv: "config v2 = config v" by simp_all
    have gs: "get_random_state L w2 = get_random_state L v2"
      by (rule get_random_state_gen [OF g2])
    from RandomEnv_exit_cases [of L w2] RandomEnv_exit_cases [of L v2] gs
    show ?thesis
      using i by (auto simp: with_RandomEnv_def ew ev sw sv bw bv r cw cv same_persisted_def
          split: option.splits)
  qed
qed


lemma same_persisted_config:
  "same_persisted w v \<Longrightarrow> config w1 = config w \<Longrightarrow> config v1 = config v \<Longrightarrow>
   same_persisted w1 v1"
  by (simp add: same_persisted_def split: option.splits)

lemma message_related:
  "same_persisted w v \<Longrightarrow>
   same_persisted (evaluation_message symbol tag args w) (evaluation_message symbol tag args v)"
  by (simp add: same_persisted_def evaluation_message_def split: option.splits)

lemma RandomInteger_apply_related:
  assumes R: "same_persisted w v"
  shows "fst (RandomInteger_apply L rmin rmax w) = fst (RandomInteger_apply L rmin rmax v) \<and>
         same_persisted (snd (RandomInteger_apply L rmin rmax w)) (snd (RandomInteger_apply L rmin rmax v))"
proof (cases "\<exists>a b. rmin = Integer a \<and> rmax = Integer b")
  case True
  then obtain a b where ab: "rmin = Integer a" "rmax = Integer b" by blast
  show ?thesis
    unfolding RandomInteger_apply_def ab prod.case expr.case
    by (rule with_RandomEnv_related [OF _ _ R])
      (auto simp: RandomEnv_randint_def split: sum.splits prod.splits)
next
  case False
  then have "RandomInteger_apply L rmin rmax u =
      (Inr None, evaluation_message ''RandomInteger'' ''unifr'' [Expression ''System`List'' [rmin, rmax]] u)"
    for u :: "'a world"
    by (cases rmin; cases rmax) (simp_all add: RandomInteger_apply_def)
  then show ?thesis using message_related [OF R] by simp
qed

lemma RandomInteger_apply_list_related:
  assumes R: "same_persisted w v"
  shows "fst (RandomInteger_apply_list L rmin rmax ns w) = fst (RandomInteger_apply_list L rmin rmax ns v) \<and>
         same_persisted (snd (RandomInteger_apply_list L rmin rmax ns w))
           (snd (RandomInteger_apply_list L rmin rmax ns v))"
proof (cases "\<exists>a b. rmin = Integer a \<and> rmax = Integer b")
  case True
  then obtain a b where ab: "rmin = Integer a" "rmax = Integer b" by blast
  show ?thesis
    unfolding RandomInteger_apply_list_def ab prod.case expr.case Let_def
    by (rule with_RandomEnv_related [OF _ _ R])
      (auto simp: RandomEnv_randint_def split: sum.splits prod.splits)
next
  case False
  then have "RandomInteger_apply_list L rmin rmax ns u =
      (Inr None, evaluation_message ''RandomInteger'' ''unifr'' [Expression ''System`List'' [rmin, rmax]] u)"
    for u :: "'a world"
    by (cases rmin; cases rmax) (simp_all add: RandomInteger_apply_list_def)
  then show ?thesis using message_related [OF R] by simp
qed

lemma RandomState_apply_related:
  assumes R: "same_persisted w v"
  shows "fst (RandomState_apply L w) = fst (RandomState_apply L v) \<and>
         same_persisted (snd (RandomState_apply L w)) (snd (RandomState_apply L v))"
  unfolding RandomState_apply_def
  by (rule with_RandomEnv_related [OF _ _ R])
    (auto simp: get_random_state_def split: sum.splits)


lemma RandomReal_apply_list_related:
  assumes R: "same_persisted w v"
  shows "fst (RandomReal_apply_list L xmin xmax ns w) = fst (RandomReal_apply_list L xmin xmax ns v) \<and>
         same_persisted (snd (RandomReal_apply_list L xmin xmax ns w))
           (snd (RandomReal_apply_list L xmin xmax ns v))"
proof (cases "\<exists>a b xs. real_endpoint xmin = Some a \<and> real_endpoint xmax = Some b \<and>
                 iter_py (to_python ns) = Inr xs \<and> list_all is_nonneg_int xs")
  case True
  then obtain a b xs where ab: "real_endpoint xmin = Some a" "real_endpoint xmax = Some b"
    "iter_py (to_python ns) = Inr xs" "list_all is_nonneg_int xs" by blast
  show ?thesis
    unfolding RandomReal_apply_list_def ab prod.case option.case Let_def sum.case
    using ab(4)
    by (simp only: not_True_eq_False if_False)
      (rule with_RandomEnv_related [OF _ _ R],
        auto simp: RandomEnv_randreal_def split: sum.splits prod.splits)
next
  case False
  then have a: "fst (RandomReal_apply_list L xmin xmax ns w) = fst (RandomReal_apply_list L xmin xmax ns v)"
    by (auto simp: RandomReal_apply_list_def Let_def split: option.splits sum.splits)
  from False have b: "config (snd (RandomReal_apply_list L xmin xmax ns u)) = config u" for u :: "'a world"
    by (auto simp: RandomReal_apply_list_def evaluation_message_def Let_def
        split: option.splits sum.splits)
  from a same_persisted_config [OF R b b] show ?thesis by simp
qed


lemma RandomComplex_apply_list_related:
  assumes R: "same_persisted w v"
  shows "fst (RandomComplex_apply_list L zmin zmax ns w) = fst (RandomComplex_apply_list L zmin zmax ns v) \<and>
         same_persisted (snd (RandomComplex_apply_list L zmin zmax ns w))
           (snd (RandomComplex_apply_list L zmin zmax ns v))"
proof (cases "\<exists>a c. real_endpoint zmin = Some a \<and> real_endpoint zmax = Some c \<and>
                 list_all is_nonneg_int (case to_python ns of PyList xs \<Rightarrow> xs | x \<Rightarrow> [x])")
  case True
  then obtain a c where ab: "real_endpoint zmin = Some a" "real_endpoint zmax = Some c"
    "list_all is_nonneg_int (case to_python ns of PyList xs \<Rightarrow> xs | x \<Rightarrow> [x])" by blast
  let ?py = "PyList (case to_python ns of PyList xs \<Rightarrow> xs | x \<Rightarrow> [x])"
  let ?body = "\<lambda>w1. case RandomEnv_randreal L a c (Some ?py) w1 of
                 Inl e \<Rightarrow> (Inl e, w1)
               | Inr (re_part, w2) \<Rightarrow>
                   (case RandomEnv_randreal L 0 0 (Some ?py) w2 of
                      Inl e \<Rightarrow> (Inl e, w2)
                    | Inr (im_part, w3) \<Rightarrow>
                        (case numpy_stack re_part im_part of
                           Inl e \<Rightarrow> (Inl e, w3)
                         | Inr stacked \<Rightarrow>
                             (case from_numpy stacked Complex_leaf 2 of
                                Inl e \<Rightarrow> (Inl e, w3)
                              | Inr r \<Rightarrow> (Inr (Some r), w3))))"
  have run: "RandomComplex_apply_list L zmin zmax ns u = with_RandomEnv L ?body u" for u
    using ab(3)
    by (simp add: RandomComplex_apply_list_def Complex_new_real [OF ab(1)] Complex_new_real [OF ab(2)]
        Let_def)
  show ?thesis
    unfolding run
    by (rule with_RandomEnv_related [OF _ _ R])
      (auto simp: RandomEnv_randreal_def split: sum.splits prod.splits)
next
  case False
  then have a: "fst (RandomComplex_apply_list L zmin zmax ns w) = fst (RandomComplex_apply_list L zmin zmax ns v)"
    by (cases zmin; cases zmax) (simp_all add: RandomComplex_apply_list_def Let_def)
  from False have b: "config (snd (RandomComplex_apply_list L zmin zmax ns u)) = config u" for u :: "'a world"
    by (cases zmin; cases zmax)
      (simp_all add: RandomComplex_apply_list_def evaluation_message_def Let_def)
  from a same_persisted_config [OF R b b] show ?thesis by simp
qed

lemma weights_to_python_frame:
  "fst (weights_to_python name ws ex w) = fst (weights_to_python name ws ex v)"
  "config (snd (weights_to_python name ws ex w)) = config w"
  by (auto simp: weights_to_python_def evaluation_message_def Let_def split: sum.splits)

lemma size_to_python_frame:
  "fst (size_to_python name d sz w) = fst (size_to_python name d sz v)"
  "config (snd (size_to_python name d sz w)) = config w"
  by (auto simp: size_to_python_def evaluation_message_def Let_def split: sum.splits)

lemma RandomSelection_domain_frame:
  "fst (RandomSelection_domain name d sz w) = fst (RandomSelection_domain name d sz v)"
  "config (snd (RandomSelection_domain name d sz w)) = config w"
proof -
  let ?ex = "Expression name [d, sz]"
  have f: "fst (weights_to_python name ws ?ex w) = fst (weights_to_python name ws ?ex v)" for ws
    by (rule weights_to_python_frame)
  have c: "config (snd (weights_to_python name ws ?ex u)) = config u" for ws and u :: "'a world"
    by (rule weights_to_python_frame)
  show "fst (RandomSelection_domain name d sz w) = fst (RandomSelection_domain name d sz v)"
    using f
    by (auto simp: RandomSelection_domain_def split: sum.splits prod.splits)
      (metis fst_conv sum.inject Inl_Inr_False)+
  show "config (snd (RandomSelection_domain name d sz w)) = config w"
    using c
    by (auto simp: RandomSelection_domain_def evaluation_message_def split: sum.splits prod.splits)
      (metis snd_conv)+
qed


lemma RandomSelection_apply_related:
  assumes R: "same_persisted w v"
  shows "fst (RandomSelection_apply L name replace d sz w) = fst (RandomSelection_apply L name replace d sz v) \<and>
         same_persisted (snd (RandomSelection_apply L name replace d sz w))
           (snd (RandomSelection_apply L name replace d sz v))"
proof -
  obtain r w1 where dw: "RandomSelection_domain name d sz w = (r, w1)"
    by (cases "RandomSelection_domain name d sz w")
  obtain r' v1 where dv: "RandomSelection_domain name d sz v = (r', v1)"
    by (cases "RandomSelection_domain name d sz v")
  from RandomSelection_domain_frame(1) [of name d sz w v] dw dv have r: "r' = r" by simp
  from RandomSelection_domain_frame(2) [of name d sz w] RandomSelection_domain_frame(2) [of name d sz v] dw dv
  have R1: "same_persisted w1 v1" using R by (auto intro: same_persisted_config)
  show ?thesis
  proof (cases r)
    case (Inl e)
    then show ?thesis using dw dv r R1 by (simp add: RandomSelection_apply_def)
  next
    case (Inr x)
    show ?thesis
    proof (cases x)
      case (Inl early)
      then show ?thesis using dw dv r R1 Inr by (simp add: RandomSelection_apply_def)
    next
      case sel: (Inr we)
      obtain weights elements where we: "we = (weights, elements)" by (cases we)
      obtain q w2 where sw: "size_to_python name d sz w1 = (q, w2)"
        by (cases "size_to_python name d sz w1")
      obtain q' v2 where sv: "size_to_python name d sz v1 = (q', v2)"
        by (cases "size_to_python name d sz v1")
      from size_to_python_frame(1) [of name d sz w1 v1] sw sv have q: "q' = q" by simp
      from size_to_python_frame(2) [of name d sz w1] size_to_python_frame(2) [of name d sz v1] sw sv
      have R2: "same_persisted w2 v2" using R1 by (auto intro: same_persisted_config)
      show ?thesis
      proof (cases q)
        case (Inl e)
        then show ?thesis using dw dv r Inr sel we sw sv q R2
          by (simp add: RandomSelection_apply_def)
      next
        case qr: (Inr py)
        show ?thesis
        proof (cases py)
          case None
          then show ?thesis using dw dv r Inr sel we sw sv q qr R2
            by (simp add: RandomSelection_apply_def)
        next
          case (Some py_size)
          let ?body = "\<lambda>w3. case RandomEnv_randchoice L (length elements) py_size replace weights w3 of
                          Inl e \<Rightarrow> (Inl e, w3)
                        | Inr (arr, w4) \<Rightarrow>
                            (case from_numpy arr (element_leaf elements) 1 of
                               Inl e \<Rightarrow> (Inl e, w4)
                             | Inr r \<Rightarrow> (Inr (Some r), w4))"
          have rw: "RandomSelection_apply L name replace d sz w = with_RandomEnv L ?body w2"
            and rv: "RandomSelection_apply L name replace d sz v = with_RandomEnv L ?body v2"
            using dw dv r Inr sel we sw sv q qr Some by (simp_all add: RandomSelection_apply_def)
          show ?thesis
            unfolding rw rv
            by (rule with_RandomEnv_related [OF _ _ R2])
              (auto simp: RandomEnv_randchoice_def split: sum.splits prod.splits)
        qed
      qed
    qed
  qed
qed

lemma RandomSelection_call_related:
  assumes R: "same_persisted w v"
  shows "fst (RandomSelection_call L name replace args w) = fst (RandomSelection_call L name replace args v) \<and>
         same_persisted (snd (RandomSelection_call L name replace args w))
           (snd (RandomSelection_call L name replace args v))"
proof -
  let ?args = "case RandomBase_rules args of Some args1 \<Rightarrow> args1 | None \<Rightarrow> args"
  show ?thesis
  proof (cases "\<exists>d sz. ?args = [d, sz]")
    case True
    then obtain d sz where "?args = [d, sz]" by blast
    then have "RandomSelection_call L name replace args u = RandomSelection_apply L name replace d sz u" for u
      by (simp add: RandomSelection_call_def)
    then show ?thesis using RandomSelection_apply_related [OF R] by simp
  next
    case False
    then have "RandomSelection_call L name replace args u = (Inr None, u)" for u :: "'a world"
      by (auto simp: RandomSelection_call_def split: list.splits)
    then show ?thesis using R by simp
  qed
qed

text \<open>
  Every call has one outcome on two evaluation states with the same persisted random
  state, and leaves them with the same persisted random state.
\<close>

lemma eval_call_related:
  "same_persisted w v \<Longrightarrow>
   fst (eval_call L c w) = fst (eval_call L c v) \<and>
   same_persisted (snd (eval_call L c w)) (snd (eval_call L c v))"
  by (cases c)
    (simp_all add: RandomInteger_apply_related RandomInteger_apply_list_related
      RandomReal_apply_list_related RandomComplex_apply_list_related RandomState_apply_related
      RandomSelection_call_related RandomChoice_def RandomSample_def)

lemma eval_calls_related:
  "same_persisted w v \<Longrightarrow> eval_calls L cs w = eval_calls L cs v"
proof (induction cs arbitrary: w v)
  case Nil
  then show ?case by simp
next
  case (Cons c cs)
  from eval_call_related [OF Cons.prems, of L c]
  have "fst (eval_call L c w) = fst (eval_call L c v)"
    and "same_persisted (snd (eval_call L c w)) (snd (eval_call L c v))" by simp_all
  with Cons.IH show ?case by (simp add: case_prod_unfold)
qed

text \<open>
  Seeding with an integer of numpy's seed domain, in a session that is entered, installs
  the state of that seed and persists its encoding.
\<close>

lemma SeedRandom_valid:
  assumes v: "0 \<le> x" "x < 2 ^ 32"
    and enter: "RandomEnv_enter L w = Inr w1"
    and blob: "\<forall>g. pickle_dumps L g \<noteq> []"
  shows "\<exists>s. get_random_state L (w1\<lparr>gen := mt_init L (nat x)\<rparr>) = Inr s \<and>
             SeedRandom_apply L (Integer x) w =
               (Inr (Some (Symbol ''System`Null'')),
                w1\<lparr>gen := mt_init L (nat x), config := (config w1)(''$RandomState'' \<mapsto> s)\<rparr>)"
proof -
  let ?body = "\<lambda>w1. case RandomEnv_seed L (Some x) w1 of
                        Inl e \<Rightarrow> (Inl e :: pyerr + unit, w1)
                      | Inr w2 \<Rightarrow> (Inr (), w2)"
  have b: "?body w1 = (Inr (), w1\<lparr>gen := mt_init L (nat x)\<rparr>)"
    using v by (simp add: RandomEnv_seed_def numpy_random_seed_def)
  from with_RandomEnv_run [of L w w1 ?body "Inr ()" "w1\<lparr>gen := mt_init L (nat x)\<rparr>"] enter b blob
  obtain s where "get_random_state L (w1\<lparr>gen := mt_init L (nat x)\<rparr>) = Inr s"
    and "with_RandomEnv L ?body w =
           (Inr (), w1\<lparr>gen := mt_init L (nat x), config := (config w1)(''$RandomState'' \<mapsto> s)\<rparr>)"
    by auto
  then show ?thesis by (simp add: SeedRandom_apply_def)
qed

text \<open>
  Reproducibility for seeds of numpy's seed domain: after \<^verbatim>\<open>SeedRandom[x]\<close> with
  \<open>0 \<le> x < 2^32\<close>, evaluated in two evaluation states whose sessions can be entered,
  one sequence of sampling calls has the same outcomes in both.
\<close>

theorem SeedRandom_reproducible:
  assumes "0 \<le> x" and "x < 2 ^ 32"
    and "RandomEnv_enter L w = Inr w1" and "RandomEnv_enter L v = Inr v1"
    and "\<forall>g. pickle_dumps L g \<noteq> []"
  shows "eval_calls L cs (snd (SeedRandom_apply L (Integer x) w)) =
         eval_calls L cs (snd (SeedRandom_apply L (Integer x) v))"
proof -
  from SeedRandom_valid [OF assms(1,2,3,5)] SeedRandom_valid [OF assms(1,2,4,5)]
  have "same_persisted (snd (SeedRandom_apply L (Integer x) w)) (snd (SeedRandom_apply L (Integer x) v))"
    by (auto simp: same_persisted_def get_random_state_def)
  then show ?thesis by (rule eval_calls_related)
qed

theorem SeedRandom_reproducible_witness:
  "(0 :: int) \<le> 42 \<and> (42 :: int) < 2 ^ 32 \<and>
   RandomEnv_enter demo_libs (demo_world (Some 32769) 0) = Inr (demo_world (Some 32769) 1) \<and>
   RandomEnv_enter demo_libs (demo_world (Some 32770) 0) = Inr (demo_world (Some 32770) 2) \<and>
   (\<forall>g. pickle_dumps demo_libs g \<noteq> []) \<and>
   eval_calls demo_libs [Call_RandomInteger (Integer 0) (Integer 100), Call_RandomState]
     (snd (SeedRandom_apply demo_libs (Integer 42) (demo_world (Some 32769) 0))) =
   eval_calls demo_libs [Call_RandomInteger (Integer 0) (Integer 100), Call_RandomState]
     (snd (SeedRandom_apply demo_libs (Integer 42) (demo_world (Some 32770) 0)))"
proof -
  have a: "(0 :: int) \<le> 42" and b: "(42 :: int) < 2 ^ 32" by simp_all
  have c: "RandomEnv_enter demo_libs (demo_world (Some 32769) 0) = Inr (demo_world (Some 32769) 1)"
    using demo_enter [of 1 0] by simp
  have d: "RandomEnv_enter demo_libs (demo_world (Some 32770) 0) = Inr (demo_world (Some 32770) 2)"
    using demo_enter [of 2 0] by simp
  from SeedRandom_reproducible [OF a b c d demo_blob] a b c d demo_blob show ?thesis by blast
qed

end
